theory Spec2Isabelle
  imports Main "HOL-Library.Word"
begin

section \<open>Frame transport (common/framing.py)\<close>

text \<open>
  A frame is a 4-byte big-endian length followed by the payload. Bytes are 8-bit words.
  The writer is the byte sequence written so far. The reader is the list of segments in
  which the bytes arrive before end of file: \<open>reader.read(k)\<close> hands out at most
  \<open>k\<close> bytes of the next segment and the empty byte string only at end of file.
\<close>

type_synonym byte = "8 word"
type_synonym bytes = "byte list"
type_synonym reader = "bytes list"

datatype framing_error = FramingError string

definition MAX_FRAME :: nat where
  "MAX_FRAME = 64 * 1024"

definition HDR_size :: nat where
  "HDR_size = 4"

text \<open>\<open>struct.Struct("!I")\<close>: network byte order, unsigned 32 bit.\<close>

definition HDR_pack :: "nat \<Rightarrow> bytes" where
  "HDR_pack n =
     [of_nat (n div 16777216 mod 256), of_nat (n div 65536 mod 256),
      of_nat (n div 256 mod 256), of_nat (n mod 256)]"

definition HDR_unpack :: "bytes \<Rightarrow> nat" where
  "HDR_unpack h =
     unat (h ! 0) * 16777216 + unat (h ! 1) * 65536 + unat (h ! 2) * 256 + unat (h ! 3)"

definition send_frame :: "bytes \<Rightarrow> bytes \<Rightarrow> framing_error + bytes" where
  "send_frame writer payload =
     (if payload = [] \<or> length payload > MAX_FRAME
      then Inl (FramingError ''bad frame size'')
      else Inr (writer @ HDR_pack (length payload) @ payload))"

fun read :: "nat \<Rightarrow> reader \<Rightarrow> bytes \<times> reader" where
  "read k [] = ([], [])"
| "read k (c # cs) =
     (if c = [] then read k cs
      else if length c \<le> k then (c, cs)
      else (take k c, drop k c # cs))"

function read_exact_loop :: "nat \<Rightarrow> bytes \<Rightarrow> reader \<Rightarrow> bytes option \<times> reader" where
  "read_exact_loop n buf r =
     (if length buf < n
      then (case read (n - length buf) r of
              (chunk, r') \<Rightarrow>
                if chunk = [] then (None, r') else read_exact_loop n (buf @ chunk) r')
      else (Some buf, r))"
  by pat_completeness auto
termination
  by (relation "measure (\<lambda>(n, buf, r). n - length buf)") (auto simp: neq_Nil_conv)

definition read_exact :: "reader \<Rightarrow> nat \<Rightarrow> bytes option \<times> reader" where
  "read_exact r n = read_exact_loop n [] r"

definition recv_frame :: "reader \<Rightarrow> (framing_error + bytes option) \<times> reader" where
  "recv_frame r =
     (case read_exact r HDR_size of
        (None, r1) \<Rightarrow> (Inr None, r1)
      | (Some hdr, r1) \<Rightarrow>
          (let len = HDR_unpack hdr in
           if len = 0 \<or> len > MAX_FRAME then (Inl (FramingError ''bad length''), r1)
           else (case read_exact r1 len of (res, r2) \<Rightarrow> (Inr res, r2))))"

section \<open>The record store (server/db_server.py)\<close>

text \<open>
  The store keeps its tables in SQLite. A table is the list of its rows in insertion
  (rowid) order; an \<open>INTEGER PRIMARY KEY AUTOINCREMENT\<close> column takes the successor of
  the table's sequence counter. Every action is a function from the store to a reply and
  the new store; the reply is \<open>Inl code\<close> for \<open>{"status":"ERR","error":code}\<close> and
  \<open>Inr data\<close> for \<open>{"status":"OK",...}\<close>. The clock reading \<open>now_ts()\<close> of an action
  is its argument \<open>now\<close>. A request reaches an action through \<open>db_call\<close> and
  \<open>dispatch\<close>, which only encode, route and decode it.
\<close>

definition is_space :: "char \<Rightarrow> bool" where
  "is_space c = (c \<in> set [CHR 0x09, CHR 0x0A, CHR 0x0B, CHR 0x0C, CHR 0x0D,
                            CHR 0x1C, CHR 0x1D, CHR 0x1E, CHR 0x1F, CHR 0x20])"

text \<open>\<open>str.strip()\<close> on ASCII text.\<close>

definition strip :: "string \<Rightarrow> string" where
  "strip s = rev (dropWhile is_space (rev (dropWhile is_space s)))"

type_synonym path = "string list"

record game_row =
  g_id :: int
  g_gameId :: string
  g_name :: string
  g_description :: string
  g_developerId :: int
  g_delisted :: int
  g_createdAt :: int
  g_updatedAt :: int

record version_row =
  v_id :: int
  v_gameFk :: int
  v_version :: string
  v_changelog :: string
  v_uploadedAt :: int
  v_fileName :: string
  v_sizeBytes :: int
  v_sha256 :: string
  v_zipPath :: path
  v_extractedPath :: path
  v_manifestJson :: string
  v_clientType :: string
  v_minPlayers :: int
  v_maxPlayers :: int

record room_row =
  r_id :: int
  r_hostPlayerId :: int
  r_gameFk :: int
  r_gameVersionFk :: int
  r_status :: string
  r_createdAt :: int
  r_updatedAt :: int

record member_row =
  m_roomId :: int
  m_playerId :: int
  m_joinedAt :: int

record matchlog_row =
  ml_id :: int
  ml_roomId :: int
  ml_gameFk :: int
  ml_gameVersionFk :: int
  ml_startedAt :: int
  ml_endedAt :: int
  ml_reason :: string
  ml_winnerPlayerId :: "int option"
  ml_resultsJson :: string

record review_row =
  rv_id :: int
  rv_gameFk :: int
  rv_playerId :: int
  rv_rating :: int
  rv_comment :: string
  rv_createdAt :: int
  rv_updatedAt :: int

record db =
  Game :: "game_row list"
  GameVersion :: "version_row list"
  Room :: "room_row list"
  RoomMember :: "member_row list"
  MatchLog :: "matchlog_row list"
  Review :: "review_row list"
  seq_Game :: int
  seq_GameVersion :: int
  seq_Room :: int
  seq_MatchLog :: int
  seq_Review :: int

definition empty_db :: db where
  "empty_db = \<lparr>Game = [], GameVersion = [], Room = [], RoomMember = [], MatchLog = [],
     Review = [], seq_Game = 0, seq_GameVersion = 0, seq_Room = 0, seq_MatchLog = 0,
     seq_Review = 0\<rparr>"

subsection \<open>Game\<close>

definition Game_create ::
  "int \<Rightarrow> string \<Rightarrow> string \<Rightarrow> string \<Rightarrow> int \<Rightarrow> db \<Rightarrow> (string + int) \<times> db" where
  "Game_create now gameId name description developerId d =
     (let game_id = strip gameId; name' = strip name; description' = strip description in
      if game_id = [] \<or> name' = [] \<or> description' = [] \<or> developerId \<le> 0
      then (Inl ''missing_fields'', d)
      else if find (\<lambda>g. g_gameId g = game_id) (Game d) \<noteq> None
      then (Inl ''game_exists'', d)
      else (Inr (seq_Game d + 1),
            d\<lparr>Game := Game d @
                 [\<lparr>g_id = seq_Game d + 1, g_gameId = game_id, g_name = name',
                   g_description = description', g_developerId = developerId,
                   g_delisted = 0, g_createdAt = now, g_updatedAt = now\<rparr>],
              seq_Game := seq_Game d + 1\<rparr>))"

definition Game_get_by_gameId :: "string \<Rightarrow> db \<Rightarrow> string + game_row" where
  "Game_get_by_gameId gameId d =
     (let game_id = strip gameId in
      if game_id = [] then Inl ''missing_fields''
      else (case find (\<lambda>g. g_gameId g = game_id) (Game d) of
              None \<Rightarrow> Inl ''not_found''
            | Some row \<Rightarrow> Inr row))"

definition Game_set_delisted ::
  "int \<Rightarrow> string \<Rightarrow> bool \<Rightarrow> int \<Rightarrow> db \<Rightarrow> (string + unit) \<times> db" where
  "Game_set_delisted now gameId delisted developerId d =
     (let game_id = strip gameId in
      if game_id = [] \<or> developerId \<le> 0 then (Inl ''missing_fields'', d)
      else (case find (\<lambda>g. g_gameId g = game_id) (Game d) of
              None \<Rightarrow> (Inl ''not_found'', d)
            | Some row \<Rightarrow>
                if g_developerId row \<noteq> developerId then (Inl ''not_owner'', d)
                else (Inr (),
                      d\<lparr>Game := map (\<lambda>g. if g_gameId g = game_id
                                           then g\<lparr>g_delisted := (if delisted then 1 else 0),
                                                  g_updatedAt := now\<rparr>
                                           else g) (Game d)\<rparr>)))"

subsection \<open>GameVersion\<close>

record version_create_req =
  vc_gameDbId :: int
  vc_version :: string
  vc_changelog :: string
  vc_fileName :: string
  vc_sizeBytes :: int
  vc_sha256 :: string
  vc_zipPath :: path
  vc_extractedPath :: path
  vc_manifestJson :: string
  vc_clientType :: string
  vc_minPlayers :: int
  vc_maxPlayers :: int

text \<open>
  The insert fails on \<open>UNIQUE(gameFk, version)\<close> with an IntegrityError, which the action
  answers with \<open>version_exists\<close>; nothing of the transaction is kept then.
\<close>

definition GameVersion_create ::
  "int \<Rightarrow> version_create_req \<Rightarrow> db \<Rightarrow> (string + int) \<times> db" where
  "GameVersion_create now rq d =
     (let game_db_id = vc_gameDbId rq; version = strip (vc_version rq) in
      if game_db_id \<le> 0 \<or> version = [] then (Inl ''missing_fields'', d)
      else if find (\<lambda>v. v_gameFk v = game_db_id \<and> v_version v = version) (GameVersion d)
                \<noteq> None
      then (Inl ''version_exists'', d)
      else (Inr (seq_GameVersion d + 1),
            d\<lparr>GameVersion := GameVersion d @
                 [\<lparr>v_id = seq_GameVersion d + 1, v_gameFk = game_db_id, v_version = version,
                   v_changelog = strip (vc_changelog rq), v_uploadedAt = now,
                   v_fileName = vc_fileName rq, v_sizeBytes = vc_sizeBytes rq,
                   v_sha256 = vc_sha256 rq, v_zipPath = vc_zipPath rq,
                   v_extractedPath = vc_extractedPath rq,
                   v_manifestJson = vc_manifestJson rq, v_clientType = vc_clientType rq,
                   v_minPlayers = vc_minPlayers rq, v_maxPlayers = vc_maxPlayers rq\<rparr>],
              seq_GameVersion := seq_GameVersion d + 1,
              Game := map (\<lambda>g. if g_id g = game_db_id then g\<lparr>g_updatedAt := now\<rparr> else g)
                        (Game d)\<rparr>))"

text \<open>\<open>ORDER BY uploadedAt DESC, id DESC LIMIT 1\<close>.\<close>

fun newest :: "version_row list \<Rightarrow> version_row option" where
  "newest [] = None"
| "newest (v # vs) =
     (case newest vs of
        None \<Rightarrow> Some v
      | Some w \<Rightarrow>
          if v_uploadedAt w < v_uploadedAt v
             \<or> (v_uploadedAt w = v_uploadedAt v \<and> v_id w < v_id v)
          then Some v else Some w)"

definition GameVersion_latest_for_gameId :: "string \<Rightarrow> db \<Rightarrow> string + version_row" where
  "GameVersion_latest_for_gameId gameId d =
     (let game_id = strip gameId in
      if game_id = [] then Inl ''missing_fields''
      else (case find (\<lambda>g. g_gameId g = game_id) (Game d) of
              None \<Rightarrow> Inl ''not_found''
            | Some g \<Rightarrow>
                if g_delisted g \<noteq> 0 then Inl ''game_delisted''
                else (case newest (filter (\<lambda>v. v_gameFk v = g_id g) (GameVersion d)) of
                        None \<Rightarrow> Inl ''no_version''
                      | Some row \<Rightarrow> Inr row)))"

definition GameVersion_get_by_id :: "int \<Rightarrow> db \<Rightarrow> string + version_row" where
  "GameVersion_get_by_id vid d =
     (if vid \<le> 0 then Inl ''missing_fields''
      else (case find (\<lambda>v. v_id v = vid) (GameVersion d) of
              None \<Rightarrow> Inl ''not_found''
            | Some row \<Rightarrow> Inr row))"

subsection \<open>Room and RoomMember\<close>

text \<open>\<open>INSERT OR IGNORE INTO RoomMember\<close>: the primary key is \<open>(roomId, playerId)\<close>.\<close>

definition insert_member_or_ignore :: "int \<Rightarrow> int \<Rightarrow> int \<Rightarrow> member_row list \<Rightarrow> member_row list" where
  "insert_member_or_ignore rid pid ts ms =
     (if find (\<lambda>m. m_roomId m = rid \<and> m_playerId m = pid) ms \<noteq> None then ms
      else ms @ [\<lparr>m_roomId = rid, m_playerId = pid, m_joinedAt = ts\<rparr>])"

definition touch_room :: "int \<Rightarrow> int \<Rightarrow> room_row list \<Rightarrow> room_row list" where
  "touch_room rid ts rs = map (\<lambda>r. if r_id r = rid then r\<lparr>r_updatedAt := ts\<rparr> else r) rs"

definition Room_create :: "int \<Rightarrow> int \<Rightarrow> int \<Rightarrow> int \<Rightarrow> db \<Rightarrow> (string + int) \<times> db" where
  "Room_create now hostPlayerId gameDbId gameVersionId d =
     (if hostPlayerId \<le> 0 \<or> gameDbId \<le> 0 \<or> gameVersionId \<le> 0
      then (Inl ''missing_fields'', d)
      else (Inr (seq_Room d + 1),
            d\<lparr>Room := Room d @
                 [\<lparr>r_id = seq_Room d + 1, r_hostPlayerId = hostPlayerId, r_gameFk = gameDbId,
                   r_gameVersionFk = gameVersionId, r_status = ''waiting'',
                   r_createdAt = now, r_updatedAt = now\<rparr>],
              seq_Room := seq_Room d + 1,
              RoomMember := insert_member_or_ignore (seq_Room d + 1) hostPlayerId now
                              (RoomMember d)\<rparr>))"

text \<open>
  \<open>SELECT playerId FROM RoomMember WHERE roomId=? ORDER BY joinedAt ASC\<close>. Rows with the
  same \<open>joinedAt\<close> come in an order SQL leaves open; here they keep their insertion order.
\<close>

definition room_players :: "int \<Rightarrow> db \<Rightarrow> int list" where
  "room_players rid d =
     map m_playerId (sort_key m_joinedAt (filter (\<lambda>m. m_roomId m = rid) (RoomMember d)))"

record room_view =
  rw_id :: int
  rw_hostPlayerId :: int
  rw_status :: string
  rw_gameDbId :: int
  rw_gameId :: string
  rw_delisted :: int
  rw_gameVersionId :: int
  rw_version :: string
  rw_clientType :: string
  rw_minPlayers :: int
  rw_maxPlayers :: int
  rw_players :: "int list"

definition Room_get :: "int \<Rightarrow> db \<Rightarrow> string + room_view" where
  "Room_get room_id d =
     (if room_id \<le> 0 then Inl ''missing_fields''
      else (case find (\<lambda>r. r_id r = room_id) (Room d) of
              None \<Rightarrow> Inl ''not_found''
            | Some r \<Rightarrow>
                (case find (\<lambda>g. g_id g = r_gameFk r) (Game d) of
                   None \<Rightarrow> Inl ''not_found''
                 | Some g \<Rightarrow>
                     (case find (\<lambda>v. v_id v = r_gameVersionFk r) (GameVersion d) of
                        None \<Rightarrow> Inl ''not_found''
                      | Some gv \<Rightarrow>
                          Inr \<lparr>rw_id = r_id r, rw_hostPlayerId = r_hostPlayerId r,
                               rw_status = r_status r, rw_gameDbId = g_id g,
                               rw_gameId = g_gameId g, rw_delisted = g_delisted g,
                               rw_gameVersionId = v_id gv, rw_version = v_version gv,
                               rw_clientType = v_clientType gv,
                               rw_minPlayers = v_minPlayers gv,
                               rw_maxPlayers = v_maxPlayers gv,
                               rw_players = room_players room_id d\<rparr>))))"

definition Room_add_member :: "int \<Rightarrow> int \<Rightarrow> int \<Rightarrow> db \<Rightarrow> (string + unit) \<times> db" where
  "Room_add_member now room_id player_id d =
     (if room_id \<le> 0 \<or> player_id \<le> 0 then (Inl ''missing_fields'', d)
      else (Inr (),
            d\<lparr>RoomMember := insert_member_or_ignore room_id player_id now (RoomMember d),
              Room := touch_room room_id now (Room d)\<rparr>))"

definition Room_remove_member :: "int \<Rightarrow> int \<Rightarrow> int \<Rightarrow> db \<Rightarrow> (string + unit) \<times> db" where
  "Room_remove_member now room_id player_id d =
     (if room_id \<le> 0 \<or> player_id \<le> 0 then (Inl ''missing_fields'', d)
      else (Inr (),
            d\<lparr>RoomMember := filter (\<lambda>m. \<not> (m_roomId m = room_id \<and> m_playerId m = player_id))
                              (RoomMember d),
              Room := touch_room room_id now (Room d)\<rparr>))"

definition Room_set_status :: "int \<Rightarrow> int \<Rightarrow> string \<Rightarrow> db \<Rightarrow> (string + unit) \<times> db" where
  "Room_set_status now room_id status d =
     (let status' = strip status in
      if room_id \<le> 0 \<or> status' = [] then (Inl ''missing_fields'', d)
      else (Inr (),
            d\<lparr>Room := map (\<lambda>r. if r_id r = room_id
                                 then r\<lparr>r_status := status', r_updatedAt := now\<rparr> else r)
                        (Room d)\<rparr>))"

definition Room_set_host :: "int \<Rightarrow> int \<Rightarrow> int \<Rightarrow> db \<Rightarrow> (string + unit) \<times> db" where
  "Room_set_host now room_id host_player_id d =
     (if room_id \<le> 0 \<or> host_player_id \<le> 0 then (Inl ''missing_fields'', d)
      else (Inr (),
            d\<lparr>Room := map (\<lambda>r. if r_id r = room_id
                                 then r\<lparr>r_hostPlayerId := host_player_id, r_updatedAt := now\<rparr>
                                 else r)
                        (Room d)\<rparr>))"

definition Room_delete_if_empty :: "int \<Rightarrow> db \<Rightarrow> (string + unit) \<times> db" where
  "Room_delete_if_empty room_id d =
     (if room_id \<le> 0 then (Inl ''missing_fields'', d)
      else if length (filter (\<lambda>m. m_roomId m = room_id) (RoomMember d)) \<noteq> 0
      then (Inl ''not_empty'', d)
      else (Inr (), d\<lparr>Room := filter (\<lambda>r. r_id r \<noteq> room_id) (Room d)\<rparr>))"

subsection \<open>MatchLog and Review\<close>

record matchlog_create_req =
  mc_roomId :: int
  mc_gameDbId :: int
  mc_gameVersionId :: int
  mc_startedAt :: int
  mc_endedAt :: int
  mc_reason :: string
  mc_winnerPlayerId :: "int option"
  mc_resultsJson :: string

text \<open>The winner column is \<open>int(data.get("winnerPlayerId") or 0) or None\<close>.\<close>

definition MatchLog_create :: "matchlog_create_req \<Rightarrow> db \<Rightarrow> (string + int) \<times> db" where
  "MatchLog_create rq d =
     (Inr (seq_MatchLog d + 1),
      d\<lparr>MatchLog := MatchLog d @
           [\<lparr>ml_id = seq_MatchLog d + 1, ml_roomId = mc_roomId rq, ml_gameFk = mc_gameDbId rq,
             ml_gameVersionFk = mc_gameVersionId rq, ml_startedAt = mc_startedAt rq,
             ml_endedAt = mc_endedAt rq, ml_reason = mc_reason rq,
             ml_winnerPlayerId = (case mc_winnerPlayerId rq of
                                    None \<Rightarrow> None
                                  | Some w \<Rightarrow> if w = 0 then None else Some w),
             ml_resultsJson = mc_resultsJson rq\<rparr>],
        seq_MatchLog := seq_MatchLog d + 1\<rparr>)"

text \<open>Python's \<open>str\<close> of an integer, as the f-string of the LIKE pattern renders it.\<close>

definition digit_char :: "nat \<Rightarrow> char" where
  "digit_char k = char_of (48 + k)"

function str_nat :: "nat \<Rightarrow> string" where
  "str_nat n = (if n < 10 then [digit_char n] else str_nat (n div 10) @ [digit_char (n mod 10)])"
  by pat_completeness auto
termination
  by (relation "measure (\<lambda>n. n)") auto

definition str_int :: "int \<Rightarrow> string" where
  "str_int i = (if i < 0 then CHR ''-'' # str_nat (nat (- i)) else str_nat (nat i))"

text \<open>
  SQLite's \<open>LIKE\<close> compares ASCII letters without case. The pattern of the store is
  \<open>%text%\<close> with a text free of wildcards, so the match is a search for the text.
\<close>

definition lower_char :: "char \<Rightarrow> char" where
  "lower_char c =
     (let k = (of_char c :: nat) in if 65 \<le> k \<and> k \<le> 90 then char_of (k + 32) else c)"

fun starts_with_ci :: "string \<Rightarrow> string \<Rightarrow> bool" where
  "starts_with_ci [] hay = True"
| "starts_with_ci (c # cs) [] = False"
| "starts_with_ci (c # cs) (h # hs) = (lower_char c = lower_char h \<and> starts_with_ci cs hs)"

fun like_contains :: "string \<Rightarrow> string \<Rightarrow> bool" where
  "like_contains needle [] = starts_with_ci needle []"
| "like_contains needle (h # hs) = (starts_with_ci needle (h # hs) \<or> like_contains needle hs)"

definition dq :: char where
  "dq = CHR 0x22"

definition userId_marker :: "int \<Rightarrow> string" where
  "userId_marker player_id = [dq] @ ''userId'' @ [dq] @ '': '' @ str_int player_id"

definition MatchLog_has_player_played :: "string \<Rightarrow> int \<Rightarrow> db \<Rightarrow> string + bool" where
  "MatchLog_has_player_played gameId player_id d =
     (let game_id = strip gameId in
      if game_id = [] \<or> player_id \<le> 0 then Inl ''missing_fields''
      else (case find (\<lambda>g. g_gameId g = game_id) (Game d) of
              None \<Rightarrow> Inl ''not_found''
            | Some g \<Rightarrow>
                Inr (find (\<lambda>ml. ml_gameFk ml = g_id g
                                \<and> like_contains (userId_marker player_id) (ml_resultsJson ml))
                       (MatchLog d) \<noteq> None)))"

definition Review_upsert ::
  "int \<Rightarrow> string \<Rightarrow> int \<Rightarrow> int \<Rightarrow> string \<Rightarrow> db \<Rightarrow> (string + unit) \<times> db" where
  "Review_upsert now gameId player_id rating comment d =
     (let game_id = strip gameId; comment' = strip comment in
      if game_id = [] \<or> player_id \<le> 0 \<or> rating < 1 \<or> rating > 5
      then (Inl ''bad_request'', d)
      else (case find (\<lambda>g. g_gameId g = game_id) (Game d) of
              None \<Rightarrow> (Inl ''not_found'', d)
            | Some g \<Rightarrow>
                if find (\<lambda>rv. rv_gameFk rv = g_id g \<and> rv_playerId rv = player_id) (Review d)
                     \<noteq> None
                then (Inr (),
                      d\<lparr>Review := map (\<lambda>rv. if rv_gameFk rv = g_id g \<and> rv_playerId rv = player_id
                                              then rv\<lparr>rv_rating := rating, rv_comment := comment',
                                                      rv_updatedAt := now\<rparr>
                                              else rv) (Review d)\<rparr>)
                else (Inr (),
                      d\<lparr>Review := Review d @
                           [\<lparr>rv_id = seq_Review d + 1, rv_gameFk = g_id g,
                             rv_playerId = player_id, rv_rating = rating,
                             rv_comment = comment', rv_createdAt = now, rv_updatedAt = now\<rparr>],
                        seq_Review := seq_Review d + 1\<rparr>)))"

section \<open>The developer server (server/developer_server.py, common/manifest.py)\<close>

subsection \<open>Files\<close>

text \<open>
  The file system holds regular files with their contents and the directories that were
  made. A path is the list of its components below the root.
\<close>

record filesystem =
  files :: "(path \<times> bytes) list"
  dirs :: "path list"

definition UPLOAD_ROOT :: path where
  "UPLOAD_ROOT = [''hw3'', ''server'', ''uploaded_games'']"

definition TMP_ROOT :: path where
  "TMP_ROOT = [''hw3'', ''server'', ''storage'', ''tmp_uploads'']"

definition has_prefix :: "path \<Rightarrow> path \<Rightarrow> bool" where
  "has_prefix p q = (take (length p) q = p)"

definition fs_read :: "filesystem \<Rightarrow> path \<Rightarrow> bytes option" where
  "fs_read fs p = map_of (files fs) p"

definition is_file :: "filesystem \<Rightarrow> path \<Rightarrow> bool" where
  "is_file fs p = (fs_read fs p \<noteq> None)"

definition is_dir :: "filesystem \<Rightarrow> path \<Rightarrow> bool" where
  "is_dir fs p = (p \<in> set (dirs fs))"

definition exists :: "filesystem \<Rightarrow> path \<Rightarrow> bool" where
  "exists fs p = (is_file fs p \<or> is_dir fs p)"

text \<open>\<open>Path.mkdir(parents=True, exist_ok=True)\<close>.\<close>

definition mkdir_parents :: "path \<Rightarrow> filesystem \<Rightarrow> filesystem" where
  "mkdir_parents p fs =
     fs\<lparr>dirs := List.union (dirs fs) (map (\<lambda>k. take k p) [1..<Suc (length p)])\<rparr>"

definition write_bytes :: "path \<Rightarrow> bytes \<Rightarrow> filesystem \<Rightarrow> filesystem" where
  "write_bytes p data fs = fs\<lparr>files := (p, data) # filter (\<lambda>(q, _). q \<noteq> p) (files fs)\<rparr>"

text \<open>\<open>open("ab")\<close> and \<open>write\<close>: the file is made when it is missing.\<close>

definition append_bytes :: "path \<Rightarrow> bytes \<Rightarrow> filesystem \<Rightarrow> filesystem" where
  "append_bytes p data fs =
     write_bytes p ((case fs_read fs p of None \<Rightarrow> [] | Some old \<Rightarrow> old) @ data) fs"

text \<open>\<open>shutil.move\<close> of a regular file; a missing source raises.\<close>

definition move :: "path \<Rightarrow> path \<Rightarrow> filesystem \<Rightarrow> string + filesystem" where
  "move src dst fs =
     (case fs_read fs src of
        None \<Rightarrow> Inl ''no_such_file''
      | Some data \<Rightarrow>
          Inr (write_bytes dst data (fs\<lparr>files := filter (\<lambda>(q, _). q \<noteq> src) (files fs)\<rparr>)))"

definition rmtree :: "path \<Rightarrow> filesystem \<Rightarrow> filesystem" where
  "rmtree p fs =
     fs\<lparr>files := filter (\<lambda>(q, _). \<not> has_prefix p q) (files fs),
        dirs := filter (\<lambda>q. \<not> has_prefix p q) (dirs fs)\<rparr>"

definition iterdir :: "filesystem \<Rightarrow> path \<Rightarrow> path list" where
  "iterdir fs p =
     remdups (filter (\<lambda>q. has_prefix p q \<and> length q = Suc (length p))
                (map fst (files fs) @ dirs fs))"

subsection \<open>Paths of archive members\<close>

fun split_on :: "char \<Rightarrow> string \<Rightarrow> string list" where
  "split_on sep [] = [[]]"
| "split_on sep (c # cs) =
     (if c = sep then [] # split_on sep cs
      else (case split_on sep cs of
              [] \<Rightarrow> [[c]]
            | w # ws \<Rightarrow> (c # w) # ws))"

text \<open>
  \<open>Path(name).parts\<close> without the root, and \<open>Path(name).is_absolute()\<close>: pathlib drops
  empty components and single dots, and keeps \<open>..\<close>.
\<close>

definition path_parts :: "string \<Rightarrow> string list" where
  "path_parts s = filter (\<lambda>p. p \<noteq> [] \<and> p \<noteq> ''.'') (split_on (CHR ''/'') s)"

definition is_absolute :: "string \<Rightarrow> bool" where
  "is_absolute s = (case s of [] \<Rightarrow> False | c # _ \<Rightarrow> c = CHR ''/'')"

definition joinpath :: "path \<Rightarrow> string \<Rightarrow> path" where
  "joinpath root s = (if is_absolute s then path_parts s else root @ path_parts s)"

record zip_member =
  zm_filename :: string
  zm_data :: bytes

definition unsafe_member :: "zip_member \<Rightarrow> bool" where
  "unsafe_member m = (is_absolute (zm_filename m) \<or> ''..'' \<in> set (path_parts (zm_filename m)))"

text \<open>
  The libraries the server calls are parameters of the model: SHA-256 as a hex digest,
  strict base64 decoding (\<open>None\<close> where it raises), the member list of a zip archive
  (\<open>Inl\<close> where \<open>zipfile\<close> raises), and the reading of \<open>manifest.json\<close> up to the typed
  fields \<open>parse_manifest\<close> checks: \<open>json.loads\<close>, the presence of the keys and the
  \<open>str\<close>, \<open>int\<close>, \<open>strip\<close> and \<open>lower\<close> conversions, with the error code where one
  of them fails.
\<close>

record Entrypoint =
  ep_module :: string
  ep_argv :: "string list"

record GameManifest =
  gm_gameId :: string
  gm_name :: string
  gm_version :: string
  gm_developer :: string
  gm_description :: string
  gm_clientType :: string
  gm_minPlayers :: int
  gm_maxPlayers :: int
  gm_server :: Entrypoint
  gm_client :: Entrypoint

record lib =
  sha256_hex :: "bytes \<Rightarrow> string"
  b64decode :: "string \<Rightarrow> bytes option"
  read_zip :: "bytes \<Rightarrow> string + zip_member list"
  manifest_fields :: "bytes \<Rightarrow> string + GameManifest"
  manifest_dumps :: "bytes \<Rightarrow> string"

text \<open>The checks of \<open>parse_manifest\<close> on the converted fields.\<close>

definition parse_manifest :: "GameManifest \<Rightarrow> string + GameManifest" where
  "parse_manifest m =
     (if gm_clientType m \<noteq> ''cli'' \<and> gm_clientType m \<noteq> ''gui'' then Inl ''bad:clientType''
      else if gm_minPlayers m \<le> 0 \<or> gm_maxPlayers m \<le> 0 \<or> gm_minPlayers m > gm_maxPlayers m
      then Inl ''bad:playerRange''
      else if gm_gameId m = [] \<or> gm_name m = [] \<or> gm_version m = [] \<or> gm_developer m = []
      then Inl ''bad:identity''
      else Inr m)"

definition load_manifest_from_dir :: "lib \<Rightarrow> filesystem \<Rightarrow> path \<Rightarrow> string + GameManifest \<times> string" where
  "load_manifest_from_dir L fs game_dir =
     (case fs_read fs (game_dir @ [''manifest.json'']) of
        None \<Rightarrow> Inl ''missing_manifest''
      | Some text \<Rightarrow>
          (case manifest_fields L text of
             Inl e \<Rightarrow> Inl e
           | Inr raw \<Rightarrow>
               (case parse_manifest raw of
                  Inl e \<Rightarrow> Inl e
                | Inr m \<Rightarrow> Inr (m, manifest_dumps L text))))"

subsection \<open>Safe extraction\<close>

text \<open>
  \<open>ZipFile.extractall\<close> writes every member below the target; a member whose name ends
  in a slash is a directory.
\<close>

definition extract_member :: "path \<Rightarrow> zip_member \<Rightarrow> filesystem \<Rightarrow> filesystem" where
  "extract_member dst m fs =
     (let target = dst @ filter (\<lambda>p. p \<noteq> ''..'') (path_parts (zm_filename m)) in
      if zm_filename m \<noteq> [] \<and> last (zm_filename m) = CHR ''/''
      then mkdir_parents target fs
      else write_bytes target (zm_data m) (mkdir_parents (butlast target) fs))"

definition safe_extract_zip :: "lib \<Rightarrow> path \<Rightarrow> path \<Rightarrow> filesystem \<Rightarrow> (string + unit) \<times> filesystem" where
  "safe_extract_zip L zip_path dst_dir fs =
     (let fs1 = mkdir_parents dst_dir fs in
      case fs_read fs1 zip_path of
        None \<Rightarrow> (Inl ''no_such_file'', fs1)
      | Some data \<Rightarrow>
          (case read_zip L data of
             Inl e \<Rightarrow> (Inl e, fs1)
           | Inr members \<Rightarrow>
               if find unsafe_member members \<noteq> None then (Inl ''unsafe_zip_entry'', fs1)
               else (Inr (), fold (extract_member dst_dir) members fs1)))"

subsection \<open>Sessions and upload sessions\<close>

record DevSession =
  ds_developer_id :: int
  ds_username :: string

text \<open>
  The running SHA-256 state of an upload is the byte sequence fed to it so far; its
  digest is the digest of that sequence.
\<close>

record UploadSession =
  us_upload_id :: string
  us_developer_id :: int
  us_game_id :: string
  us_version :: string
  us_file_name :: string
  us_expected_size :: int
  us_expected_sha256 :: string
  us_temp_path :: path
  us_auto_created_game :: bool
  us_received :: int
  us_next_seq :: int
  us_hasher :: bytes

text \<open>
  The state of the developer server: its three tables, the file system it writes to and
  the store behind \<open>db_call\<close>. A connection is named by a number.
\<close>

record dev_state =
  SESSIONS :: "nat \<rightharpoonup> DevSession"
  ONLINE_DEVS :: "int \<rightharpoonup> nat"
  UPLOADS :: "string \<rightharpoonup> UploadSession"
  dev_fs :: filesystem
  dev_db :: db

definition is_alnum :: "char \<Rightarrow> bool" where
  "is_alnum c =
     (let k = (of_char c :: nat) in
      (48 \<le> k \<and> k \<le> 57) \<or> (65 \<le> k \<and> k \<le> 90) \<or> (97 \<le> k \<and> k \<le> 122))"

text \<open>\<open>^[A-Za-z0-9_-]{1,64}$\<close> and \<open>^[A-Za-z0-9_.-]{1,64}$\<close>, matched in full.\<close>

definition GAME_ID_RE :: "string \<Rightarrow> bool" where
  "GAME_ID_RE s =
     (1 \<le> length s \<and> length s \<le> 64
      \<and> list_all (\<lambda>c. is_alnum c \<or> c = CHR ''_'' \<or> c = CHR ''-'') s)"

definition VERSION_RE :: "string \<Rightarrow> bool" where
  "VERSION_RE s =
     (1 \<le> length s \<and> length s \<le> 64
      \<and> list_all (\<lambda>c. is_alnum c \<or> c = CHR ''_'' \<or> c = CHR ''.'' \<or> c = CHR ''-'') s)"

definition lower :: "string \<Rightarrow> string" where
  "lower s = map lower_char s"

definition slug_char :: "char \<Rightarrow> bool" where
  "slug_char c =
     (let k = (of_char c :: nat) in (48 \<le> k \<and> k \<le> 57) \<or> (97 \<le> k \<and> k \<le> 122))"

text \<open>\<open>re.compile(r"[^a-z0-9]+").sub("_", s)\<close>.\<close>

function SLUG_RE_sub :: "string \<Rightarrow> string" where
  "SLUG_RE_sub [] = []"
| "SLUG_RE_sub (c # cs) =
     (if slug_char c then c # SLUG_RE_sub cs
      else CHR ''_'' # SLUG_RE_sub (dropWhile (\<lambda>x. \<not> slug_char x) cs))"
  by pat_completeness auto
termination
  by (relation "measure length") (auto simp: length_dropWhile_le less_Suc_eq_le)

definition slugify :: "string \<Rightarrow> string" where
  "slugify name =
     (let s = SLUG_RE_sub (lower (strip name));
          s' = rev (dropWhile (\<lambda>c. c = CHR ''_'') (rev (dropWhile (\<lambda>c. c = CHR ''_'') s)))
      in take 32 s')"

text \<open>
  \<open>_reserve_unique_game_id\<close> probes the store with the base name and then with up to 19
  random suffixes; \<open>rnd i\<close> is the hex string of the \<open>i\<close>-th draw.
\<close>

fun probe_ids :: "string list \<Rightarrow> db \<Rightarrow> string option" where
  "probe_ids [] d = None"
| "probe_ids (gid # gids) d =
     (case Game_get_by_gameId gid d of
        Inr _ \<Rightarrow> probe_ids gids d
      | Inl _ \<Rightarrow> Some gid)"

definition reserve_unique_game_id :: "(nat \<Rightarrow> string) \<Rightarrow> string \<Rightarrow> int \<Rightarrow> db \<Rightarrow> string" where
  "reserve_unique_game_id rnd base developer_id d =
     (let base' = (if base = [] then ''game_'' @ str_int developer_id else base) in
      case probe_ids (base' # map (\<lambda>i. base' @ ''_'' @ rnd i) [1..<20]) d of
        Some gid \<Rightarrow> gid
      | None \<Rightarrow> base' @ ''_'' @ rnd 20)"

subsection \<open>game_upload_init\<close>

record upload_init_req =
  ui_gameId :: string
  ui_version :: string
  ui_fileName :: string
  ui_sizeBytes :: int
  ui_sha256 :: string
  ui_name :: string
  ui_description :: string

text \<open>
  The part of \<open>handle_upload_init\<close> that finds or makes the Game row. It answers with the
  game id and whether the row was made by this request.
\<close>

definition upload_init_game ::
  "(nat \<Rightarrow> string) \<Rightarrow> int \<Rightarrow> DevSession \<Rightarrow> string \<Rightarrow> upload_init_req \<Rightarrow> db
     \<Rightarrow> (string + string \<times> bool) \<times> db" where
  "upload_init_game rnd now sess game_id data d =
     (let name = strip (ui_name data); description = strip (ui_description data) in
      if game_id = [] then
        (if name = [] \<or> description = [] then (Inl ''missing_fields'', d)
         else
           (let gid = reserve_unique_game_id rnd (slugify name) (ds_developer_id sess) d in
            case Game_create now gid name description (ds_developer_id sess) d of
              (Inl e, d') \<Rightarrow> (Inl e, d')
            | (Inr _, d') \<Rightarrow> (Inr (gid, True), d')))
      else
        (case Game_get_by_gameId game_id d of
           Inr gdata \<Rightarrow>
             if g_developerId gdata \<noteq> ds_developer_id sess then (Inl ''not_owner'', d)
             else (Inr (game_id, False), d)
         | Inl e \<Rightarrow>
             if e \<noteq> ''not_found'' then (Inl e, d)
             else if name = [] \<or> description = [] then (Inl ''missing_fields'', d)
             else
               (case Game_create now game_id name description (ds_developer_id sess) d of
                  (Inr _, d') \<Rightarrow> (Inr (game_id, True), d')
                | (Inl e', d') \<Rightarrow>
                    if e' = ''game_exists'' then
                      (case Game_get_by_gameId game_id d' of
                         Inr g2 \<Rightarrow>
                           if g_developerId g2 = ds_developer_id sess
                           then (Inr (game_id, False), d')
                           else (Inl e', d')
                       | Inl _ \<Rightarrow> (Inl e', d'))
                    else (Inl e', d'))))"

text \<open>\<open>upload_id\<close> is the value \<open>secrets.token_hex(16)\<close> returns to this request.\<close>

definition handle_upload_init ::
  "(nat \<Rightarrow> string) \<Rightarrow> string \<Rightarrow> int \<Rightarrow> nat \<Rightarrow> upload_init_req \<Rightarrow> dev_state
     \<Rightarrow> (string + string \<times> string \<times> bool) \<times> dev_state" where
  "handle_upload_init rnd upload_id now writer data s =
     (case SESSIONS s writer of
        None \<Rightarrow> (Inl ''not_logged_in'', s)
      | Some sess \<Rightarrow>
          (let game_id = strip (ui_gameId data);
               version = strip (ui_version data);
               file_name = strip (ui_fileName data);
               expected_size = ui_sizeBytes data;
               expected_sha256 = lower (strip (ui_sha256 data))
           in
           if version = [] \<or> expected_size \<le> 0 \<or> expected_sha256 = []
           then (Inl ''missing_fields'', s)
           else if \<not> VERSION_RE version then (Inl ''bad_version'', s)
           else if game_id \<noteq> [] \<and> \<not> GAME_ID_RE game_id then (Inl ''bad_game_id'', s)
           else
             (case upload_init_game rnd now sess game_id data (dev_db s) of
                (Inl e, d') \<Rightarrow> (Inl e, s\<lparr>dev_db := d'\<rparr>)
              | (Inr (gid, auto_created), d') \<Rightarrow>
                  (let temp_path = TMP_ROOT @ [upload_id @ ''.zip.part''] in
                   (Inr (upload_id, gid, auto_created),
                    s\<lparr>dev_db := d',
                      UPLOADS := (UPLOADS s)(upload_id \<mapsto>
                        \<lparr>us_upload_id = upload_id, us_developer_id = ds_developer_id sess,
                          us_game_id = gid, us_version = version, us_file_name = file_name,
                          us_expected_size = expected_size,
                          us_expected_sha256 = expected_sha256, us_temp_path = temp_path,
                          us_auto_created_game = auto_created, us_received = 0,
                          us_next_seq = 0, us_hasher = []\<rparr>),
                      dev_fs := write_bytes temp_path [] (mkdir_parents TMP_ROOT (dev_fs s))\<rparr>)))))"

subsection \<open>game_upload_chunk\<close>

record upload_chunk_req =
  uc_uploadId :: string
  uc_seq :: int
  uc_dataB64 :: string

definition handle_upload_chunk ::
  "lib \<Rightarrow> nat \<Rightarrow> upload_chunk_req \<Rightarrow> dev_state \<Rightarrow> (string + int \<times> int) \<times> dev_state" where
  "handle_upload_chunk L writer data s =
     (case SESSIONS s writer of
        None \<Rightarrow> (Inl ''not_logged_in'', s)
      | Some sess \<Rightarrow>
          (let upload_id = strip (uc_uploadId data) in
           case UPLOADS s upload_id of
             None \<Rightarrow> (Inl ''no_such_upload'', s)
           | Some up \<Rightarrow>
               if us_developer_id up \<noteq> ds_developer_id sess then (Inl ''not_owner'', s)
               else if uc_seq data \<noteq> us_next_seq up then (Inl ''bad_seq'', s)
               else
                 (case b64decode L (uc_dataB64 data) of
                    None \<Rightarrow> (Inl ''bad_base64'', s)
                  | Some chunk \<Rightarrow>
                      if chunk = [] then (Inl ''empty_chunk'', s)
                      else if us_received up + int (length chunk) > us_expected_size up
                      then (Inl ''too_large'', s)
                      else
                        (let up' = up\<lparr>us_hasher := us_hasher up @ chunk,
                                      us_received := us_received up + int (length chunk),
                                      us_next_seq := us_next_seq up + 1\<rparr>
                         in (Inr (us_received up', us_expected_size up'),
                             s\<lparr>dev_fs := append_bytes (us_temp_path up) chunk (dev_fs s),
                               UPLOADS := (UPLOADS s)(upload_id \<mapsto> up')\<rparr>)))))"

subsection \<open>game_upload_finish\<close>

record upload_finish_req =
  uf_uploadId :: string
  uf_changelog :: string

text \<open>
  The \<open>try\<close> block of \<open>handle_upload_finish\<close>: move the temp file to \<open>package.zip\<close>,
  remove an old \<open>extracted\<close> tree and extract. What was done before an exception stays
  done; the reply then carries \<open>extract_failed:\<close> and the text of the exception.
\<close>

definition move_and_extract ::
  "lib \<Rightarrow> path \<Rightarrow> path \<Rightarrow> path \<Rightarrow> filesystem \<Rightarrow> (string + unit) \<times> filesystem" where
  "move_and_extract L temp_path zip_path extracted_path fs =
     (case move temp_path zip_path fs of
        Inl e \<Rightarrow> (Inl (''extract_failed:'' @ e), fs)
      | Inr fs1 \<Rightarrow>
          (let fs2 = (if exists fs1 extracted_path then rmtree extracted_path fs1 else fs1) in
           case safe_extract_zip L zip_path extracted_path fs2 of
             (Inl e, fs3) \<Rightarrow> (Inl (''extract_failed:'' @ e), fs3)
           | (Inr _, fs3) \<Rightarrow> (Inr (), fs3)))"

text \<open>A single top-level directory in the archive is taken as the package root.\<close>

definition locate_package_root :: "filesystem \<Rightarrow> path \<Rightarrow> path" where
  "locate_package_root fs extracted_path =
     (if exists fs (extracted_path @ [''manifest.json'']) then extracted_path
      else (case iterdir fs extracted_path of
              [child] \<Rightarrow> if is_dir fs child then child else extracted_path
            | _ \<Rightarrow> extracted_path))"

definition handle_upload_finish ::
  "lib \<Rightarrow> int \<Rightarrow> nat \<Rightarrow> upload_finish_req \<Rightarrow> dev_state \<Rightarrow> (string + int) \<times> dev_state" where
  "handle_upload_finish L now writer data s =
     (case SESSIONS s writer of
        None \<Rightarrow> (Inl ''not_logged_in'', s)
      | Some sess \<Rightarrow>
          (let upload_id = strip (uf_uploadId data) in
           case UPLOADS s upload_id of
             None \<Rightarrow> (Inl ''no_such_upload'', s)
           | Some up \<Rightarrow>
               if us_developer_id up \<noteq> ds_developer_id sess then (Inl ''not_owner'', s)
               else if us_received up \<noteq> us_expected_size up then (Inl ''size_mismatch'', s)
               else if lower (sha256_hex L (us_hasher up)) \<noteq> us_expected_sha256 up
               then (Inl ''hash_mismatch'', s)
               else
                 (let game_dir = UPLOAD_ROOT @ [us_game_id up, us_version up];
                      zip_path = game_dir @ [''package.zip''];
                      extracted_path = game_dir @ [''extracted''];
                      fs0 = mkdir_parents game_dir (dev_fs s)
                  in
                  case move_and_extract L (us_temp_path up) zip_path extracted_path fs0 of
                    (Inl e, fs1) \<Rightarrow> (Inl e, s\<lparr>dev_fs := fs1\<rparr>)
                  | (Inr _, fs1) \<Rightarrow>
                      (let s1 = s\<lparr>dev_fs := fs1\<rparr>;
                           package_root = locate_package_root fs1 extracted_path
                       in
                       case load_manifest_from_dir L fs1 package_root of
                         Inl err \<Rightarrow> (Inl (if err = [] then ''bad_manifest'' else err), s1)
                       | Inr (manifest, raw) \<Rightarrow>
                           if gm_gameId manifest \<noteq> us_game_id up
                           then (Inl ''manifest_gameId_mismatch'', s1)
                           else if gm_version manifest \<noteq> us_version up
                           then (Inl ''manifest_version_mismatch'', s1)
                           else if \<not> exists fs1 (joinpath package_root
                                                   (ep_module (gm_server manifest)))
                           then (Inl ''missing_server_entry'', s1)
                           else if \<not> exists fs1 (joinpath package_root
                                                   (ep_module (gm_client manifest)))
                           then (Inl ''missing_client_entry'', s1)
                           else
                             (case Game_get_by_gameId (us_game_id up) (dev_db s) of
                                Inl e \<Rightarrow> (Inl e, s1)
                              | Inr gdata \<Rightarrow>
                                  if g_id gdata \<le> 0 then (Inl ''bad_game_row'', s1)
                                  else
                                    (case GameVersion_create now
                                            \<lparr>vc_gameDbId = g_id gdata,
                                              vc_version = us_version up,
                                              vc_changelog = uf_changelog data,
                                              vc_fileName = us_file_name up,
                                              vc_sizeBytes = us_expected_size up,
                                              vc_sha256 = us_expected_sha256 up,
                                              vc_zipPath = zip_path,
                                              vc_extractedPath = package_root,
                                              vc_manifestJson = raw,
                                              vc_clientType = gm_clientType manifest,
                                              vc_minPlayers = gm_minPlayers manifest,
                                              vc_maxPlayers = gm_maxPlayers manifest\<rparr>
                                            (dev_db s) of
                                       (Inl e, d') \<Rightarrow> (Inl e, s1\<lparr>dev_db := d'\<rparr>)
                                     | (Inr gvid, d') \<Rightarrow>
                                         (Inr gvid,
                                          s1\<lparr>dev_db := d',
                                             UPLOADS := (UPLOADS s)(upload_id := None)\<rparr>)))))))"

subsection \<open>The frames of one upload\<close>

text \<open>
  The connection loop \<open>handle\<close> serves the frames of a connection one after the other.
  \<open>upload_chunks\<close> serves a list of \<open>game_upload_chunk\<close> frames; \<open>chunk_frames\<close> are the
  frames a client sends for the base64 texts of its chunks, numbered from \<open>k\<close>, and
  \<open>numbered_frames\<close> the frames with sequence numbers of the client's choice.
\<close>

fun upload_chunks :: "lib \<Rightarrow> nat \<Rightarrow> upload_chunk_req list \<Rightarrow> dev_state \<Rightarrow> dev_state" where
  "upload_chunks L writer [] s = s"
| "upload_chunks L writer (rq # rqs) s =
     upload_chunks L writer rqs (snd (handle_upload_chunk L writer rq s))"

fun chunk_frames :: "string \<Rightarrow> int \<Rightarrow> string list \<Rightarrow> upload_chunk_req list" where
  "chunk_frames uid k [] = []"
| "chunk_frames uid k (b # bs) =
     \<lparr>uc_uploadId = uid, uc_seq = k, uc_dataB64 = b\<rparr> # chunk_frames uid (k + 1) bs"


text \<open>
  Stand-ins for the libraries in the worked scenarios: the digest of a byte sequence is
  the decimal sum of its bytes, the base64 text of a chunk is the chunk's bytes as
  characters (an exclamation mark is malformed), and two archives and one manifest text
  are known.
\<close>

definition demo_manifest :: GameManifest where
  "demo_manifest =
     \<lparr>gm_gameId = ''g1'', gm_name = ''Game'', gm_version = ''1.0.0'', gm_developer = ''dev1'',
       gm_description = ''demo'', gm_clientType = ''cli'', gm_minPlayers = 2,
       gm_maxPlayers = 3,
       gm_server = \<lparr>ep_module = ''server_main.py'', ep_argv = [''{port}'']\<rparr>,
       gm_client = \<lparr>ep_module = ''client_main.py'', ep_argv = [''{host}'']\<rparr>\<rparr>"

definition demo_lib :: lib where
  "demo_lib =
     \<lparr>sha256_hex = (\<lambda>bs. str_nat (sum_list (map unat bs))),
       b64decode = (\<lambda>t. if CHR ''!'' \<in> set t then None
                          else Some (map (\<lambda>c. of_nat (of_char c)) t)),
       read_zip = (\<lambda>bs.
          if bs = [80, 75, 1] then
            Inr [\<lparr>zm_filename = ''manifest.json'', zm_data = [77]\<rparr>,
                 \<lparr>zm_filename = ''server_main.py'', zm_data = [83]\<rparr>,
                 \<lparr>zm_filename = ''client_main.py'', zm_data = [67]\<rparr>]
          else if bs = [80, 75, 2] then
            Inr [\<lparr>zm_filename = ''manifest.json'', zm_data = [77]\<rparr>,
                 \<lparr>zm_filename = ''../evil'', zm_data = [69]\<rparr>]
          else Inl ''File is not a zip file''),
       manifest_fields = (\<lambda>t. if t = [77] then Inr demo_manifest else Inl ''bad_manifest_json''),
       manifest_dumps = (\<lambda>t. ''{}'')\<rparr>"

text \<open>A developer server with developer 1 logged in on connection 1 and an empty store.\<close>

definition demo_dev :: dev_state where
  "demo_dev =
     \<lparr>SESSIONS = [1 \<mapsto> \<lparr>ds_developer_id = 1, ds_username = ''dev1''\<rparr>],
       ONLINE_DEVS = [1 \<mapsto> 1], UPLOADS = Map.empty,
       dev_fs = \<lparr>files = [], dirs = []\<rparr>, dev_db = empty_db\<rparr>"

definition demo_init_req :: upload_init_req where
  "demo_init_req =
     \<lparr>ui_gameId = ''g1'', ui_version = ''1.0.0'', ui_fileName = ''g1.zip'', ui_sizeBytes = 3,
       ui_sha256 = ''156'', ui_name = ''Game'', ui_description = ''demo''\<rparr>"

text \<open>The same server after \<open>game_upload_init\<close> of \<open>demo_init_req\<close> with upload id \<open>u1\<close>.\<close>

definition demo_started :: dev_state where
  "demo_started = snd (handle_upload_init (\<lambda>i. ''ab'') ''u1'' 100 1 demo_init_req demo_dev)"

text \<open>
  The three bytes of the good archive arrive in two chunks, and \<open>game_upload_finish\<close>
  publishes version 1.0.0 of game \<open>g1\<close>.
\<close>

definition demo_uploaded :: dev_state where
  "demo_uploaded = upload_chunks demo_lib 1 (chunk_frames ''u1'' 0 [''PK'', [CHR 0x01]]) demo_started"

definition demo_published :: dev_state where
  "demo_published =
     snd (handle_upload_finish demo_lib 200 1
            \<lparr>uf_uploadId = ''u1'', uf_changelog = ''first''\<rparr> demo_uploaded)"



text \<open>
  Another run from \<open>demo_dev\<close>: the developer uploads the archive with the member
  \<open>../evil\<close>, under upload id \<open>u3\<close>.
\<close>

definition demo_evil_uploaded :: dev_state where
  "demo_evil_uploaded =
     upload_chunks demo_lib 1 (chunk_frames ''u3'' 0 [''PK'', [CHR 0x02]])
       (snd (handle_upload_init (\<lambda>i. ''ab'') ''u3'' 100 1
               (demo_init_req\<lparr>ui_sha256 := ''157''\<rparr>) demo_dev))"


section \<open>The lobby server (server/lobby_server.py)\<close>

subsection \<open>State and frames\<close>

text \<open>
  A field of a \<open>post_result\<close> frame that the lobby converts with \<open>int\<close>: absent (or
  \<open>None\<close>), a value \<open>int\<close> accepts, given as the integer it returns, or a value on
  which \<open>int\<close> raises.
\<close>

datatype field = Absent | Num int | Unconvertible

text \<open>
  The data of a \<open>post_result\<close> frame, and of the results the lobby makes up itself. The
  \<open>results\<close> entry is kept as its JSON text, empty when the entry is absent or falsy.
\<close>

record result_data =
  rd_roomId :: field
  rd_startedAt :: field
  rd_endedAt :: field
  rd_reason :: string
  rd_winner :: field
  rd_results :: string

datatype event =
    Game_info int string string string int string
  | Game_ready int "result_data option"
  | Player_joined int int
  | Player_left int int
  | Host_changed int int

datatype reply =
    Ok_login int string
  | Ok_logged_out
  | Ok_room_created int string string
  | Ok_joined int
  | Ok_left
  | Ok_started int
  | Ok_posted
  | Ok_review
  | Err string

datatype frame = Reply reply | Event event

record PlayerSession =
  ps_player_id :: int
  ps_username :: string
  ps_writer :: nat
  ps_room_id :: "int option"

record RoomLive =
  rl_room_id :: int
  rl_host_player_id :: int
  rl_players :: "int list"
  rl_game_id :: string
  rl_version :: string
  rl_game_db_id :: int
  rl_game_version_id :: int
  rl_status :: string
  rl_token :: "string option"
  rl_game_port :: "int option"
  rl_game_proc :: "nat option"

text \<open>
  The state of the lobby. A connection is named by a number. The two session tables hold
  the same session objects: \<open>SESSIONS_BY_WRITER\<close> holds the object of a connection and
  \<open>SESSIONS_BY_PLAYER_ID\<close> names, for a player, the connection whose object it is. A child
  process is named by a number and \<open>proc_returncode\<close> is \<open>None\<close> while it runs. \<open>sent\<close>
  lists the frames written so far with the connection each was written to. A handler
  runs from its first statement to its last with no other handler in between.
\<close>

record lobby_state =
  SESSIONS_BY_WRITER :: "nat \<rightharpoonup> PlayerSession"
  SESSIONS_BY_PLAYER_ID :: "int \<rightharpoonup> nat"
  ROOMS :: "int \<rightharpoonup> RoomLive"
  lobby_db :: db
  proc_returncode :: "nat \<Rightarrow> int option"
  sent :: "(nat \<times> frame) list"

definition GAME_HOST_PUB :: string where
  "GAME_HOST_PUB = ''127.0.0.1''"

definition send :: "nat \<Rightarrow> reply \<Rightarrow> lobby_state \<Rightarrow> lobby_state" where
  "send writer r s = s\<lparr>sent := sent s @ [(writer, Reply r)]\<rparr>"

definition push_event_to_player :: "int \<Rightarrow> event \<Rightarrow> lobby_state \<Rightarrow> lobby_state" where
  "push_event_to_player player_id ev s =
     (case SESSIONS_BY_PLAYER_ID s player_id of
        None \<Rightarrow> s
      | Some writer \<Rightarrow> s\<lparr>sent := sent s @ [(writer, Event ev)]\<rparr>)"

text \<open>\<open>sess.room_id = v\<close> on the session object of a connection, if it is still in the table.\<close>

definition set_room_id :: "nat \<Rightarrow> int option \<Rightarrow> lobby_state \<Rightarrow> lobby_state" where
  "set_room_id writer v s =
     (case SESSIONS_BY_WRITER s writer of
        None \<Rightarrow> s
      | Some sess \<Rightarrow>
          s\<lparr>SESSIONS_BY_WRITER := (SESSIONS_BY_WRITER s)(writer \<mapsto> sess\<lparr>ps_room_id := v\<rparr>)\<rparr>)"

definition ensure_room_live :: "int \<Rightarrow> lobby_state \<Rightarrow> RoomLive option \<times> lobby_state" where
  "ensure_room_live room_id s =
     (case ROOMS s room_id of
        Some live \<Rightarrow> (Some live, s)
      | None \<Rightarrow>
          (case Room_get room_id (lobby_db s) of
             Inl _ \<Rightarrow> (None, s)
           | Inr d \<Rightarrow>
               (let live = \<lparr>rl_room_id = rw_id d, rl_host_player_id = rw_hostPlayerId d,
                             rl_players = rw_players d, rl_game_id = rw_gameId d,
                             rl_version = rw_version d, rl_game_db_id = rw_gameDbId d,
                             rl_game_version_id = rw_gameVersionId d,
                             rl_status = (if rw_status d = [] then ''waiting'' else rw_status d),
                             rl_token = None, rl_game_port = None, rl_game_proc = None\<rparr>
                in (Some live, s\<lparr>ROOMS := (ROOMS s)(room_id \<mapsto> live)\<rparr>))))"

subsection \<open>Login\<close>

text \<open>
  \<open>resp\<close> is the store's answer to \<open>PlayerUser.login\<close>: an error code, or the player's id
  and name.
\<close>

definition handle_player_login :: "nat \<Rightarrow> string + int \<times> string \<Rightarrow> lobby_state \<Rightarrow> lobby_state" where
  "handle_player_login writer resp s =
     (case resp of
        Inl e \<Rightarrow> send writer (Err e) s
      | Inr (pid, username) \<Rightarrow>
          if pid \<le> 0 then send writer (Err ''bad_db_user'') s
          else if SESSIONS_BY_PLAYER_ID s pid \<noteq> None then send writer (Err ''already_online'') s
          else send writer (Ok_login pid username)
                 (s\<lparr>SESSIONS_BY_WRITER := (SESSIONS_BY_WRITER s)(writer \<mapsto>
                        \<lparr>ps_player_id = pid, ps_username = username, ps_writer = writer,
                          ps_room_id = None\<rparr>),
                     SESSIONS_BY_PLAYER_ID := (SESSIONS_BY_PLAYER_ID s)(pid \<mapsto> writer)\<rparr>))"

subsection \<open>room_create and room_join\<close>

definition handle_room_create :: "int \<Rightarrow> nat \<Rightarrow> string \<Rightarrow> lobby_state \<Rightarrow> lobby_state" where
  "handle_room_create now writer gameId s =
     (case SESSIONS_BY_WRITER s writer of
        None \<Rightarrow> send writer (Err ''not_logged_in'') s
      | Some sess \<Rightarrow>
          if ps_room_id sess \<noteq> None then send writer (Err ''already_in_room'') s
          else
            (let game_id = strip gameId in
             if game_id = [] then send writer (Err ''missing_fields'') s
             else
               (case Game_get_by_gameId game_id (lobby_db s) of
                  Inl e \<Rightarrow> send writer (Err e) s
                | Inr gdata \<Rightarrow>
                    if g_delisted gdata \<noteq> 0 then send writer (Err ''game_delisted'') s
                    else
                      (case GameVersion_latest_for_gameId game_id (lobby_db s) of
                         Inl e \<Rightarrow> send writer (Err e) s
                       | Inr v \<Rightarrow>
                           (case Room_create now (ps_player_id sess) (g_id gdata) (v_id v)
                                   (lobby_db s) of
                              (Inl e, d') \<Rightarrow> send writer (Err e) (s\<lparr>lobby_db := d'\<rparr>)
                            | (Inr rid, d') \<Rightarrow>
                                (case ensure_room_live rid (s\<lparr>lobby_db := d'\<rparr>) of
                                   (None, s1) \<Rightarrow>
                                     send writer (Ok_room_created rid game_id (v_version v)) s1
                                 | (Some live, s1) \<Rightarrow>
                                     send writer (Ok_room_created rid game_id (v_version v))
                                       (set_room_id writer (Some rid) s1)))))))"

text \<open>The loop that tells the other members of a room about an event.\<close>

definition notify_others :: "int list \<Rightarrow> int \<Rightarrow> event \<Rightarrow> lobby_state \<Rightarrow> lobby_state" where
  "notify_others players me ev s =
     fold (\<lambda>u st. if u \<noteq> me then push_event_to_player u ev st else st) players s"

definition handle_room_join :: "int \<Rightarrow> nat \<Rightarrow> int \<Rightarrow> lobby_state \<Rightarrow> lobby_state" where
  "handle_room_join now writer room_id s =
     (case SESSIONS_BY_WRITER s writer of
        None \<Rightarrow> send writer (Err ''not_logged_in'') s
      | Some sess \<Rightarrow>
          if ps_room_id sess \<noteq> None then send writer (Err ''already_in_room'') s
          else if room_id \<le> 0 then send writer (Err ''bad_room_id'') s
          else
            (case ensure_room_live room_id s of
               (None, s1) \<Rightarrow> send writer (Err ''no_such_room'') s1
             | (Some live, s1) \<Rightarrow>
                 if rl_status live = ''playing'' then send writer (Err ''room_playing'') s1
                 else
                   (case Room_get room_id (lobby_db s1) of
                      Inl e \<Rightarrow> send writer (Err e) s1
                    | Inr rd \<Rightarrow>
                        (let players = rw_players rd;
                             max_players = (if rw_maxPlayers rd = 0 then 2 else rw_maxPlayers rd)
                         in
                         if ps_player_id sess \<in> set players
                         then send writer (Ok_joined room_id)
                                (set_room_id writer (Some room_id) s1)
                         else if int (length players) \<ge> max_players
                         then send writer (Err ''room_full'') s1
                         else
                           (case Room_add_member now room_id (ps_player_id sess) (lobby_db s1) of
                              (Inl e, d') \<Rightarrow> send writer (Err e) (s1\<lparr>lobby_db := d'\<rparr>)
                            | (Inr _, d') \<Rightarrow>
                                (let live' = live\<lparr>rl_players :=
                                               sort (remdups (players @ [ps_player_id sess]))\<rparr>;
                                     s2 = set_room_id writer (Some room_id)
                                            (s1\<lparr>lobby_db := d',
                                                ROOMS := (ROOMS s1)(room_id \<mapsto> live')\<rparr>);
                                     s3 = send writer (Ok_joined room_id) s2
                                 in notify_others (rl_players live') (ps_player_id sess)
                                      (Player_joined room_id (ps_player_id sess)) s3))))))"

subsection \<open>Finishing a match\<close>

text \<open>
  \<open>json.dumps({"players": [{"userId": p}, ...], "results": ...}, ensure_ascii=False)\<close>
  with the default separators.
\<close>

definition quoted :: "string \<Rightarrow> string" where
  "quoted t = [dq] @ t @ [dq]"

fun join_comma :: "string list \<Rightarrow> string" where
  "join_comma [] = []"
| "join_comma [x] = x"
| "join_comma (x # y # ys) = x @ '', '' @ join_comma (y # ys)"

definition results_json :: "int list \<Rightarrow> string \<Rightarrow> string" where
  "results_json players results =
     ''{'' @ quoted ''players'' @ '': [''
       @ join_comma (map (\<lambda>pid. ''{'' @ quoted ''userId'' @ '': '' @ str_int pid @ ''}'') players)
       @ ''], '' @ quoted ''results'' @ '': ''
       @ (if results = [] then ''[]'' else results) @ ''}''"

text \<open>
  The conversions in the \<open>try\<close> block of \<open>_finish_match\<close>: \<open>None\<close> where one of them
  raises, and then nothing is written to the match log.
\<close>

definition int_or_now :: "field \<Rightarrow> int \<Rightarrow> int option" where
  "int_or_now f now =
     (case f of
        Absent \<Rightarrow> Some now
      | Num k \<Rightarrow> Some (if k = 0 then now else k)
      | Unconvertible \<Rightarrow> None)"

definition match_log_request ::
  "int \<Rightarrow> int \<Rightarrow> RoomLive \<Rightarrow> result_data \<Rightarrow> matchlog_create_req option" where
  "match_log_request now room_id live result =
     (case int_or_now (rd_startedAt result) now of
        None \<Rightarrow> None
      | Some started_at \<Rightarrow>
          (case int_or_now (rd_endedAt result) now of
             None \<Rightarrow> None
           | Some ended_at \<Rightarrow>
               (case rd_winner result of
                  Unconvertible \<Rightarrow> None
                | w \<Rightarrow>
                    Some \<lparr>mc_roomId = room_id, mc_gameDbId = rl_game_db_id live,
                          mc_gameVersionId = rl_game_version_id live,
                          mc_startedAt = started_at, mc_endedAt = ended_at,
                          mc_reason = (if rd_reason result = [] then ''finished''
                                       else rd_reason result),
                          mc_winnerPlayerId = (case w of Num k \<Rightarrow> Some k | _ \<Rightarrow> None),
                          mc_resultsJson = results_json (rl_players live) (rd_results result)\<rparr>)))"

definition persist_match_log ::
  "int \<Rightarrow> int \<Rightarrow> RoomLive \<Rightarrow> result_data option \<Rightarrow> lobby_state \<Rightarrow> lobby_state" where
  "persist_match_log now room_id live result s =
     (case result of
        None \<Rightarrow> s
      | Some res \<Rightarrow>
          (case match_log_request now room_id live res of
             None \<Rightarrow> s
           | Some rq \<Rightarrow> s\<lparr>lobby_db := snd (MatchLog_create rq (lobby_db s))\<rparr>))"

text \<open>Terminate, wait and kill: a child that still runs has a return code afterwards.\<close>

definition stop_game_process :: "RoomLive \<Rightarrow> lobby_state \<Rightarrow> lobby_state" where
  "stop_game_process live s =
     (case rl_game_proc live of
        None \<Rightarrow> s
      | Some p \<Rightarrow>
          if proc_returncode s p = None
          then s\<lparr>proc_returncode := (proc_returncode s)(p := Some (- 15))\<rparr>
          else s)"

definition finish_match :: "int \<Rightarrow> int \<Rightarrow> result_data option \<Rightarrow> lobby_state \<Rightarrow> lobby_state" where
  "finish_match now room_id result s =
     (case ensure_room_live room_id s of
        (None, s1) \<Rightarrow> s1
      | (Some live, s1) \<Rightarrow>
          (let already_finished =
                 (rl_status live \<noteq> ''playing'' \<and> rl_game_proc live = None
                  \<and> rl_token live = None)
           in
           if already_finished \<and> result = None then s1
           else
             (let s2 = persist_match_log now room_id live result (stop_game_process live s1) in
              if already_finished then s2
              else
                (let live' = live\<lparr>rl_status := ''waiting'', rl_token := None,
                                  rl_game_port := None, rl_game_proc := None\<rparr>;
                     s3 = s2\<lparr>ROOMS := (ROOMS s2)(room_id \<mapsto> live'),
                             lobby_db := snd (Room_set_status now room_id ''waiting''
                                                (lobby_db s2))\<rparr>
                 in fold (\<lambda>u. push_event_to_player u (Game_ready room_id result))
                      (rl_players live') s3))))"

definition made_up_result :: "int \<Rightarrow> string \<Rightarrow> result_data" where
  "made_up_result room_id reason =
     \<lparr>rd_roomId = Num room_id, rd_startedAt = Absent, rd_endedAt = Absent,
       rd_reason = reason, rd_winner = Absent, rd_results = []\<rparr>"

text \<open>
  \<open>_watch_game\<close> once the child has exited. It looks at the room before and after its
  grace period of half a second; here the two looks see the same state.
\<close>

definition watch_game :: "int \<Rightarrow> int \<Rightarrow> lobby_state \<Rightarrow> lobby_state" where
  "watch_game now room_id s =
     (case ensure_room_live room_id s of
        (None, s1) \<Rightarrow> s1
      | (Some live, s1) \<Rightarrow>
          if rl_status live \<noteq> ''playing'' then s1
          else finish_match now room_id (Some (made_up_result room_id ''process_exit'')) s1)"

text \<open>The child \<open>p\<close> of room \<open>room_id\<close> exits with \<open>code\<close>, and its watcher runs.\<close>

definition child_exit :: "int \<Rightarrow> int \<Rightarrow> nat \<Rightarrow> int \<Rightarrow> lobby_state \<Rightarrow> lobby_state" where
  "child_exit now room_id p code s =
     watch_game now room_id
       (if proc_returncode s p = None
        then s\<lparr>proc_returncode := (proc_returncode s)(p := Some code)\<rparr> else s)"

definition handle_post_result :: "int \<Rightarrow> nat \<Rightarrow> result_data \<Rightarrow> lobby_state \<Rightarrow> lobby_state" where
  "handle_post_result now writer data s =
     (let rid = (case rd_roomId data of Num k \<Rightarrow> k | _ \<Rightarrow> 0) in
      if rid \<le> 0 then send writer (Err ''bad_room_id'') s
      else send writer Ok_posted (finish_match now rid (Some data) s))"

subsection \<open>room_leave and disconnect\<close>

definition room_leave_internal :: "int \<Rightarrow> PlayerSession \<Rightarrow> bool \<Rightarrow> lobby_state \<Rightarrow> lobby_state" where
  "room_leave_internal now sess force s =
     (case ps_room_id sess of
        None \<Rightarrow> s
      | Some rid \<Rightarrow>
          (case ensure_room_live rid s of
             (None, s1) \<Rightarrow>
               set_room_id (ps_writer sess) None
                 (s1\<lparr>lobby_db := snd (Room_remove_member now rid (ps_player_id sess)
                                         (lobby_db s1))\<rparr>)
           | (Some live, s1) \<Rightarrow>
               if \<not> force \<and> rl_status live = ''playing'' then s1
               else
                 (let s2 = s1\<lparr>lobby_db := snd (Room_remove_member now rid (ps_player_id sess)
                                                  (lobby_db s1))\<rparr>;
                      players = filter (\<lambda>u. u \<noteq> ps_player_id sess) (rl_players live);
                      live1 = live\<lparr>rl_players := players\<rparr>;
                      s3 = s2\<lparr>ROOMS := (ROOMS s2)(rid \<mapsto> live1)\<rparr>;
                      s4 = (if players \<noteq> [] \<and> rl_host_player_id live1 = ps_player_id sess
                            then (let new_host = hd players;
                                      live2 = live1\<lparr>rl_host_player_id := new_host\<rparr>;
                                      s3' = s3\<lparr>ROOMS := (ROOMS s3)(rid \<mapsto> live2),
                                                lobby_db := snd (Room_set_host now rid new_host
                                                                   (lobby_db s3))\<rparr>
                                  in fold (\<lambda>u. push_event_to_player u (Host_changed rid new_host))
                                       players s3')
                            else s3);
                      s5 = fold (\<lambda>u. push_event_to_player u
                                        (Player_left rid (ps_player_id sess))) players s4;
                      s6 = (if players = []
                            then s5\<lparr>lobby_db := snd (Room_delete_if_empty rid (lobby_db s5)),
                                    ROOMS := (ROOMS s5)(rid := None)\<rparr>
                            else s5)
                  in set_room_id (ps_writer sess) None s6)))"

definition handle_room_leave :: "int \<Rightarrow> nat \<Rightarrow> lobby_state \<Rightarrow> lobby_state" where
  "handle_room_leave now writer s =
     (case SESSIONS_BY_WRITER s writer of
        None \<Rightarrow> send writer (Err ''not_logged_in'') s
      | Some sess \<Rightarrow>
          (case (case ps_room_id sess of
                   None \<Rightarrow> (None, s)
                 | Some rid \<Rightarrow> if rid = 0 then (None, s) else ensure_room_live rid s) of
             (live, s1) \<Rightarrow>
               if (case live of None \<Rightarrow> False | Some l \<Rightarrow> rl_status l = ''playing'')
               then send writer (Err ''room_playing'') s1
               else send writer Ok_left (room_leave_internal now sess False s1)))"

text \<open>
  \<open>_cleanup_connection\<close>: at logout (\<open>notify_client\<close>) and when a connection ends. The
  session object is taken out of both tables first.
\<close>

definition cleanup_connection :: "int \<Rightarrow> nat \<Rightarrow> bool \<Rightarrow> lobby_state \<Rightarrow> lobby_state" where
  "cleanup_connection now writer notify_client s =
     (case SESSIONS_BY_WRITER s writer of
        None \<Rightarrow> if notify_client then send writer Ok_logged_out s else s
      | Some sess \<Rightarrow>
          (let s1 = s\<lparr>SESSIONS_BY_WRITER := (SESSIONS_BY_WRITER s)(writer := None),
                      SESSIONS_BY_PLAYER_ID :=
                        (SESSIONS_BY_PLAYER_ID s)(ps_player_id sess := None)\<rparr>;
               s2 = (case ps_room_id sess of
                       None \<Rightarrow> s1
                     | Some rid \<Rightarrow>
                         (case ensure_room_live rid s1 of
                            (live, s1a) \<Rightarrow>
                              room_leave_internal now sess True
                                (if (case live of None \<Rightarrow> False
                                     | Some l \<Rightarrow> rl_status l = ''playing'')
                                 then finish_match now rid
                                        (Some (made_up_result rid ''disconnect'')) s1a
                                 else s1a)))
           in if notify_client then send writer Ok_logged_out s2 else s2))"

subsection \<open>room_start\<close>

text \<open>
  What the surroundings give to one \<open>room_start\<close>: the manifest that
  \<open>load_manifest_from_dir\<close> reads from the version's extracted path (or its error code),
  the port \<open>_select_free_port\<close> finds (if any), the token, the argument list
  \<open>_fmt_argv\<close> renders (\<open>None\<close> where a placeholder is unknown) and the child process
  (\<open>None\<close> where the spawn fails).
\<close>

record start_env =
  se_manifest :: "string + GameManifest"
  se_port :: "int option"
  se_token :: string
  se_argv :: "string list option"
  se_proc :: "nat option"

text \<open>
  The first part of \<open>handle_room_start\<close> for a room the cache has as \<open>playing\<close>: a stale
  room is finished first; \<open>None\<close> stands for the reply \<open>already_playing\<close>.
\<close>

definition settle_before_start :: "int \<Rightarrow> int \<Rightarrow> RoomLive \<Rightarrow> lobby_state \<Rightarrow> lobby_state option" where
  "settle_before_start now rid live s =
     (if rl_status live = ''playing'' then
        (case rl_game_proc live of
           None \<Rightarrow> Some (finish_match now rid (Some (made_up_result rid ''stale_state'')) s)
         | Some p \<Rightarrow>
             if proc_returncode s p \<noteq> None
             then Some (finish_match now rid (Some (made_up_result rid ''process_exit'')) s)
             else None)
      else Some s)"

text \<open>
  The part of \<open>handle_room_start\<close> from the manifest to the spawned child: the error
  reply of the first step that fails, or the port and the child.
\<close>

definition spawn_game :: "start_env \<Rightarrow> string + int \<times> nat" where
  "spawn_game env =
     (case se_manifest env of
        Inl err \<Rightarrow> Inl (if err = [] then ''bad_manifest'' else err)
      | Inr manifest \<Rightarrow>
          (case se_port env of
             None \<Rightarrow> Inl ''no_port:no_free_port''
           | Some port \<Rightarrow>
               (case se_argv env of
                  None \<Rightarrow> Inl ''bad_manifest_argv''
                | Some argv \<Rightarrow>
                    (case se_proc env of
                       None \<Rightarrow> Inl ''spawn_failed''
                     | Some proc \<Rightarrow> Inr (port, proc)))))"

definition handle_room_start :: "int \<Rightarrow> start_env \<Rightarrow> nat \<Rightarrow> int \<Rightarrow> lobby_state \<Rightarrow> lobby_state" where
  "handle_room_start now env writer roomId s =
     (case SESSIONS_BY_WRITER s writer of
        None \<Rightarrow> send writer (Err ''not_logged_in'') s
      | Some sess \<Rightarrow>
          (let rid = (if roomId \<noteq> 0 then roomId
                      else (case ps_room_id sess of None \<Rightarrow> 0 | Some r \<Rightarrow> r)) in
           if rid \<le> 0 then send writer (Err ''bad_room_id'') s
           else
             (case ensure_room_live rid s of
                (None, s1) \<Rightarrow> send writer (Err ''no_such_room'') s1
              | (Some live, s1) \<Rightarrow>
                  if ps_player_id sess \<noteq> rl_host_player_id live
                  then send writer (Err ''not_host'') s1
                  else
                    (case settle_before_start now rid live s1 of
                       None \<Rightarrow> send writer (Err ''already_playing'') s1
                     | Some s2 \<Rightarrow>
                         (case Room_get rid (lobby_db s2) of
                            Inl e \<Rightarrow> send writer (Err e) s2
                          | Inr room_row \<Rightarrow>
                              (let players = rw_players room_row;
                                   min_players = (if rw_minPlayers room_row = 0 then 2
                                                  else rw_minPlayers room_row)
                               in
                               if int (length players) < min_players
                               then send writer (Err ''need_more_players'') s2
                               else
                                 (case GameVersion_get_by_id (rl_game_version_id live)
                                         (lobby_db s2) of
                                    Inl e \<Rightarrow> send writer (Err e) s2
                                  | Inr v \<Rightarrow>
                                      (case spawn_game env of
                                         Inl e \<Rightarrow> send writer (Err e) s2
                                       | Inr (port, proc) \<Rightarrow>
                                           (let live' = live\<lparr>rl_status := ''playing'',
                                                  rl_players := players,
                                                  rl_token := Some (se_token env),
                                                  rl_game_port := Some port,
                                                  rl_game_proc := Some proc\<rparr>;
                                                s3 = s2\<lparr>ROOMS := (ROOMS s2)(rid \<mapsto> live'),
                                                  lobby_db := snd (Room_set_status now rid
                                                    ''playing'' (lobby_db s2))\<rparr>;
                                                s4 = fold (\<lambda>u. push_event_to_player u
                                                       (Game_info rid (rl_game_id live)
                                                          (rl_version live) GAME_HOST_PUB port
                                                          (se_token env))) players s3
                                            in send writer (Ok_started port) s4)))))))))"

subsection \<open>review_create_or_update\<close>

definition handle_review_upsert ::
  "int \<Rightarrow> nat \<Rightarrow> string \<Rightarrow> int \<Rightarrow> string \<Rightarrow> lobby_state \<Rightarrow> lobby_state" where
  "handle_review_upsert now writer gameId rating comment s =
     (case SESSIONS_BY_WRITER s writer of
        None \<Rightarrow> send writer (Err ''not_logged_in'') s
      | Some sess \<Rightarrow>
          (let game_id = strip gameId in
           if game_id = [] then send writer (Err ''missing_fields'') s
           else
             (case MatchLog_has_player_played game_id (ps_player_id sess) (lobby_db s) of
                Inl e \<Rightarrow> send writer (Err e) s
              | Inr played \<Rightarrow>
                  if \<not> played then send writer (Err ''not_played'') s
                  else
                    (case Review_upsert now gameId (ps_player_id sess) rating comment
                            (lobby_db s) of
                       (Inl e, d') \<Rightarrow> send writer (Err e) (s\<lparr>lobby_db := d'\<rparr>)
                     | (Inr _, d') \<Rightarrow> send writer Ok_review (s\<lparr>lobby_db := d'\<rparr>)))))"

subsection \<open>The events that end a match\<close>

text \<open>
  What can end the match of a room: a \<open>post_result\<close> frame on some connection, the exit
  of the room's child process with a return code, and the end of a player's connection.
  \<open>finish_run\<close> serves a list of such events, each with the clock reading of its handler.
\<close>

datatype finish_event =
    Post_result nat result_data
  | Child_exited nat int
  | Disconnected nat

definition finish_step :: "int \<Rightarrow> int \<Rightarrow> finish_event \<Rightarrow> lobby_state \<Rightarrow> lobby_state" where
  "finish_step room_id now e s =
     (case e of
        Post_result writer data \<Rightarrow> handle_post_result now writer data s
      | Child_exited p code \<Rightarrow> child_exit now room_id p code s
      | Disconnected writer \<Rightarrow> cleanup_connection now writer False s)"

fun finish_run :: "int \<Rightarrow> (int \<times> finish_event) list \<Rightarrow> lobby_state \<Rightarrow> lobby_state" where
  "finish_run room_id [] s = s"
| "finish_run room_id ((now, e) # es) s = finish_run room_id es (finish_step room_id now e s)"

text \<open>
  Observations on a run. \<open>ready_frames\<close> are the \<open>game_ready\<close> frames of a room among the
  frames written; \<open>broadcast\<close> are the frames of one event pushed to a list of players,
  one for each player that has a connection. A room is \<open>closed\<close> when the cache, if it
  has the room, has it waiting with no token and no child, and the store has it waiting.
\<close>

fun is_ready :: "int \<Rightarrow> nat \<times> frame \<Rightarrow> bool" where
  "is_ready room_id (w, Event (Game_ready r res)) = (r = room_id)"
| "is_ready room_id (w, f) = False"

definition ready_frames :: "int \<Rightarrow> (nat \<times> frame) list \<Rightarrow> (nat \<times> frame) list" where
  "ready_frames room_id fs = filter (is_ready room_id) fs"

definition broadcast :: "(int \<rightharpoonup> nat) \<Rightarrow> int list \<Rightarrow> event \<Rightarrow> (nat \<times> frame) list" where
  "broadcast by_player players ev =
     concat (map (\<lambda>u. case by_player u of None \<Rightarrow> [] | Some w \<Rightarrow> [(w, Event ev)]) players)"

definition closed :: "int \<Rightarrow> lobby_state \<Rightarrow> bool" where
  "closed room_id s =
     ((case ROOMS s room_id of
         None \<Rightarrow> True
       | Some live \<Rightarrow>
           rl_status live = ''waiting'' \<and> rl_game_proc live = None \<and> rl_token live = None)
      \<and> list_all (\<lambda>r. r_id r \<noteq> room_id \<or> r_status r = ''waiting'') (Room (lobby_db s)))"

text \<open>
  An event is about a room when it is a \<open>post_result\<close> that names the room, the exit of
  the room's child, or the end of the connection of a player whose session is in the
  room. \<open>first_result\<close> is the result the lobby hands on for it, and \<open>listeners\<close> are the
  players with a connection at that moment.
\<close>

definition triggers :: "int \<Rightarrow> lobby_state \<Rightarrow> finish_event \<Rightarrow> bool" where
  "triggers room_id s e =
     (case e of
        Post_result writer data \<Rightarrow> rd_roomId data = Num room_id
      | Child_exited p code \<Rightarrow> True
      | Disconnected writer \<Rightarrow>
          (case SESSIONS_BY_WRITER s writer of
             None \<Rightarrow> False
           | Some sess \<Rightarrow> ps_room_id sess = Some room_id))"

definition first_result :: "int \<Rightarrow> finish_event \<Rightarrow> result_data" where
  "first_result room_id e =
     (case e of
        Post_result writer data \<Rightarrow> data
      | Child_exited p code \<Rightarrow> made_up_result room_id ''process_exit''
      | Disconnected writer \<Rightarrow> made_up_result room_id ''disconnect'')"

definition listeners :: "lobby_state \<Rightarrow> finish_event \<Rightarrow> (int \<rightharpoonup> nat)" where
  "listeners s e =
     (case e of
        Disconnected writer \<Rightarrow>
          (case SESSIONS_BY_WRITER s writer of
             None \<Rightarrow> SESSIONS_BY_PLAYER_ID s
           | Some sess \<Rightarrow> (SESSIONS_BY_PLAYER_ID s)(ps_player_id sess := None))
      | _ \<Rightarrow> SESSIONS_BY_PLAYER_ID s)"

subsection \<open>Worked scenarios\<close>

text \<open>
  A lobby over a store in which version 1.0.0 of \<open>g1\<close> (2 to 3 players) is published.
  Players 5, 9 and 3 log in on connections 1, 2 and 3. Player 5 creates a room at time
  1000, player 9 joins it at 1001 and player 3 at 1002.
\<close>

definition lobby_store :: db where
  "lobby_store =
     \<lparr>Game = [\<lparr>g_id = 1, g_gameId = ''g1'', g_name = ''Game'', g_description = ''demo'',
                g_developerId = 1, g_delisted = 0, g_createdAt = 100, g_updatedAt = 200\<rparr>],
       GameVersion = [\<lparr>v_id = 1, v_gameFk = 1, v_version = ''1.0.0'', v_changelog = ''first'',
          v_uploadedAt = 200, v_fileName = ''g1.zip'', v_sizeBytes = 3, v_sha256 = ''156'',
          v_zipPath = [''g1'', ''1.0.0'', ''package.zip''],
          v_extractedPath = [''g1'', ''1.0.0'', ''extracted''],
          v_manifestJson = ''{}'', v_clientType = ''cli'', v_minPlayers = 2,
          v_maxPlayers = 3\<rparr>],
       Room = [], RoomMember = [], MatchLog = [], Review = [],
       seq_Game = 1, seq_GameVersion = 1, seq_Room = 0, seq_MatchLog = 0, seq_Review = 0\<rparr>"

definition lobby_start :: lobby_state where
  "lobby_start =
     \<lparr>SESSIONS_BY_WRITER = Map.empty, SESSIONS_BY_PLAYER_ID = Map.empty, ROOMS = Map.empty,
       lobby_db = lobby_store, proc_returncode = (\<lambda>p. None), sent = []\<rparr>"

definition lobby_three_online :: lobby_state where
  "lobby_three_online =
     handle_player_login 3 (Inr (3, ''carol''))
       (handle_player_login 2 (Inr (9, ''bob''))
          (handle_player_login 1 (Inr (5, ''alice'')) lobby_start))"

definition lobby_room_of_three :: lobby_state where
  "lobby_room_of_three =
     handle_room_join 1002 3 1
       (handle_room_join 1001 2 1
          (handle_room_create 1000 1 ''g1'' lobby_three_online))"

text \<open>
  In another lobby players 12 and 13 play a match of \<open>g1\<close> in room 1, the game server
  posts its result, and player 1, who was in no match, logs in on connection 3.
\<close>

definition demo_env :: start_env where
  "demo_env =
     \<lparr>se_manifest = Inr demo_manifest, se_port = Some 10000, se_token = ''t0k3n'',
       se_argv = Some [''10000''], se_proc = Some 7\<rparr>"

definition lobby_match_started :: lobby_state where
  "lobby_match_started =
     handle_room_start 2002 demo_env 1 1
       (handle_room_join 2001 2 1
          (handle_room_create 2000 1 ''g1''
             (handle_player_login 2 (Inr (13, ''bob''))
                (handle_player_login 1 (Inr (12, ''alice'')) lobby_start))))"

definition demo_result :: result_data where
  "demo_result =
     \<lparr>rd_roomId = Num 1, rd_startedAt = Num 2002, rd_endedAt = Num 2050,
       rd_reason = ''finished'', rd_winner = Num 12, rd_results = []\<rparr>"

definition lobby_match_played :: lobby_state where
  "lobby_match_played =
     handle_player_login 3 (Inr (1, ''dave''))
       (handle_post_result 2050 9 demo_result lobby_match_started)"

section \<open>Verification: frame transport\<close>

declare read_exact_loop.simps [simp del]

lemma read_concat:
  "read k r = (chunk, r') \<Longrightarrow> 0 < k \<Longrightarrow>
     chunk @ concat r' = concat r \<and> length chunk \<le> k \<and> (chunk = [] \<longrightarrow> concat r = [])"
  by (induction r arbitrary: chunk r') (auto split: if_splits)

lemma read_exact_loop_enough:
  "n - length buf \<le> length (concat r) \<Longrightarrow>
     \<exists>r'. read_exact_loop n buf r = (Some (buf @ take (n - length buf) (concat r)), r')
          \<and> concat r' = drop (n - length buf) (concat r)"
proof (induction n buf r rule: read_exact_loop.induct)
  case (1 n buf r)
  show ?case
  proof (cases "length buf < n")
    case False
    then show ?thesis by (simp add: read_exact_loop.simps [of n buf r])
  next
    case True
    obtain chunk r' where rd: "read (n - length buf) r = (chunk, r')"
      by (cases "read (n - length buf) r")
    from True have pos: "0 < n - length buf" by simp
    from read_concat [OF rd pos]
    have cat: "chunk @ concat r' = concat r" and len: "length chunk \<le> n - length buf"
      and emp: "chunk = [] \<longrightarrow> concat r = []" by auto
    have ne: "chunk \<noteq> []"
    proof
      assume "chunk = []"
      with emp have "length (concat r) = 0" by simp
      with "1.prems" pos show False by linarith
    qed
    have lr: "length (concat r) = length chunk + length (concat r')"
      using cat [symmetric] by simp
    have enough: "n - length (buf @ chunk) \<le> length (concat r')"
      using "1.prems" lr by simp
    from "1.IH" [OF True rd [symmetric] ne enough]
    obtain r'' where step: "read_exact_loop n (buf @ chunk) r' =
        (Some ((buf @ chunk) @ take (n - length (buf @ chunk)) (concat r')), r'')"
      and rest: "concat r'' = drop (n - length (buf @ chunk)) (concat r')" by blast
    have tk: "chunk @ take (n - length (buf @ chunk)) (concat r') =
        take (n - length buf) (concat r)"
      using len by (simp add: cat [symmetric])
    have dr: "drop (n - length (buf @ chunk)) (concat r') = drop (n - length buf) (concat r)"
      using len by (simp add: cat [symmetric])
    show ?thesis
      using True rd ne step rest tk dr
      by (simp add: read_exact_loop.simps [of n buf r])
  qed
qed

lemma read_exact_loop_short:
  "length (concat r) < n - length buf \<Longrightarrow> fst (read_exact_loop n buf r) = None"
proof (induction n buf r rule: read_exact_loop.induct)
  case (1 n buf r)
  from "1.prems" have lt: "length buf < n" by simp
  obtain chunk r' where rd: "read (n - length buf) r = (chunk, r')"
    by (cases "read (n - length buf) r")
  from lt have pos: "0 < n - length buf" by simp
  from read_concat [OF rd pos]
  have cat: "chunk @ concat r' = concat r" and len: "length chunk \<le> n - length buf" by auto
  show ?case
  proof (cases "chunk = []")
    case True
    with lt rd show ?thesis by (simp add: read_exact_loop.simps [of n buf r])
  next
    case False
    have "length (concat r') < n - length (buf @ chunk)"
      using "1.prems" cat [symmetric] by simp
    from "1.IH" [OF lt rd [symmetric] False this] lt rd False
    show ?thesis by (simp add: read_exact_loop.simps [of n buf r])
  qed
qed

lemma HDR_unpack_pack:
  assumes "n < 4294967296"
  shows "HDR_unpack (HDR_pack n) = n"
proof -
  define q1 where "q1 = n div 256"
  define q2 where "q2 = q1 div 256"
  define q3 where "q3 = q2 div 256"
  have d2: "n div 65536 = q2"
    unfolding q2_def q1_def by (simp add: div_mult2_eq [symmetric])
  have d3: "n div 16777216 = q3"
    unfolding q3_def q2_def q1_def by (simp add: div_mult2_eq [symmetric])
  have e1: "n = q1 * 256 + n mod 256" unfolding q1_def by simp
  have e2: "q1 = q2 * 256 + q1 mod 256" unfolding q2_def by simp
  have e3: "q2 = q3 * 256 + q2 mod 256" unfolding q3_def by simp
  from assms have "q3 < 256" unfolding d3 [symmetric] by simp
  then have m3: "q3 mod 256 = q3" by simp
  have "HDR_unpack (HDR_pack n) =
      q3 mod 256 * 16777216 + q2 mod 256 * 65536 + q1 mod 256 * 256 + n mod 256"
    unfolding HDR_unpack_def HDR_pack_def
    by (simp add: unat_of_nat d2 d3 q1_def [symmetric])
  also have "\<dots> = n" using e1 e2 e3 m3 by linarith
  finally show ?thesis .
qed

lemma length_HDR_pack: "length (HDR_pack n) = 4"
  by (simp add: HDR_pack_def)

lemma read_exact_enough:
  "n \<le> length (concat r) \<Longrightarrow>
     \<exists>r'. read_exact r n = (Some (take n (concat r)), r') \<and> concat r' = drop n (concat r)"
  using read_exact_loop_enough [of n "[]" r] by (simp add: read_exact_def)

lemma read_exact_short:
  "length (concat r) < n \<Longrightarrow> fst (read_exact r n) = None"
  using read_exact_loop_short [of r n "[]"] by (simp add: read_exact_def)

lemma recv_frame_closed_header:
  "length (concat r) < 4 \<Longrightarrow> fst (recv_frame r) = Inr None"
  using read_exact_short [of r 4]
  by (cases "read_exact r 4") (simp add: recv_frame_def HDR_size_def)

lemma recv_frame_header:
  assumes "concat r = h @ rest" "length h = 4"
  shows "fst (recv_frame r) =
     (if HDR_unpack h = 0 \<or> HDR_unpack h > MAX_FRAME then Inl (FramingError ''bad length'')
      else if length rest < HDR_unpack h then Inr None
      else Inr (Some (take (HDR_unpack h) rest)))"
proof -
  from assms have "4 \<le> length (concat r)" by simp
  from read_exact_enough [OF this] assms
  obtain r1 where h: "read_exact r 4 = (Some h, r1)" and r1: "concat r1 = rest" by auto
  show ?thesis
  proof (cases "HDR_unpack h = 0 \<or> HDR_unpack h > MAX_FRAME")
    case True
    with h show ?thesis by (auto simp add: recv_frame_def HDR_size_def Let_def)
  next
    case False
    show ?thesis
    proof (cases "length rest < HDR_unpack h")
      case True
      with read_exact_short [of r1 "HDR_unpack h"] r1
      have "fst (read_exact r1 (HDR_unpack h)) = None" by simp
      with h False True show ?thesis
        by (cases "read_exact r1 (HDR_unpack h)") (auto simp add: recv_frame_def HDR_size_def Let_def)
    next
      case ge: False
      then have "HDR_unpack h \<le> length (concat r1)" using r1 by simp
      from read_exact_enough [OF this] r1
      obtain r2 where "read_exact r1 (HDR_unpack h) = (Some (take (HDR_unpack h) rest), r2)"
        by auto
      with h False ge show ?thesis
        by (auto simp add: recv_frame_def HDR_size_def Let_def)
    qed
  qed
qed

text \<open>
  Claim C9. A payload of 1 to 65536 bytes is accepted by the frame encoder, and decoding
  the written bytes gives the payload back, however the stream is cut into segments. An
  empty payload and a payload longer than 65536 bytes are refused with FramingError. On
  the receiving side a length field of 0 or above 65536 is a FramingError; a stream that
  ends before the four header bytes, or before the whole body, is reported as closed
  (None).
\<close>

theorem framing_roundtrip:
  "(1 \<le> length b \<and> length b \<le> 65536 \<longrightarrow>
      (\<exists>w. send_frame [] b = Inr w \<and> (\<forall>r. concat r = w \<longrightarrow> fst (recv_frame r) = Inr (Some b))))
   \<and> (length b = 0 \<or> length b > 65536 \<longrightarrow> send_frame w0 b = Inl (FramingError ''bad frame size''))
   \<and> (concat r = h @ rest \<and> length h = 4 \<and> (HDR_unpack h = 0 \<or> HDR_unpack h > 65536) \<longrightarrow>
        fst (recv_frame r) = Inl (FramingError ''bad length''))
   \<and> (length (concat r) < 4 \<longrightarrow> fst (recv_frame r) = Inr None)
   \<and> (concat r = h @ rest \<and> length h = 4 \<and> 1 \<le> HDR_unpack h \<and> HDR_unpack h \<le> 65536
        \<and> length rest < HDR_unpack h \<longrightarrow> fst (recv_frame r) = Inr None)"
proof (intro conjI impI)
  assume len: "1 \<le> length b \<and> length b \<le> 65536"
  have "\<forall>r. concat r = HDR_pack (length b) @ b \<longrightarrow> fst (recv_frame r) = Inr (Some b)"
  proof (intro allI impI)
    fix r assume cat: "concat r = HDR_pack (length b) @ b"
    from len have hp: "HDR_unpack (HDR_pack (length b)) = length b"
      by (simp add: HDR_unpack_pack)
    from len have ne: "b \<noteq> []" by auto
    from recv_frame_header [OF cat length_HDR_pack] len ne
    show "fst (recv_frame r) = Inr (Some b)"
      by (simp add: hp MAX_FRAME_def)
  qed
  with len show "\<exists>w. send_frame [] b = Inr w \<and>
      (\<forall>r. concat r = w \<longrightarrow> fst (recv_frame r) = Inr (Some b))"
    by (auto simp add: send_frame_def MAX_FRAME_def)
next
  assume "length b = 0 \<or> length b > 65536"
  then show "send_frame w0 b = Inl (FramingError ''bad frame size'')"
    by (auto simp add: send_frame_def MAX_FRAME_def)
next
  assume "concat r = h @ rest \<and> length h = 4 \<and> (HDR_unpack h = 0 \<or> HDR_unpack h > 65536)"
  then show "fst (recv_frame r) = Inl (FramingError ''bad length'')"
    using recv_frame_header [of r h rest] by (auto simp add: MAX_FRAME_def)
next
  assume "length (concat r) < 4"
  then show "fst (recv_frame r) = Inr None" by (rule recv_frame_closed_header)
next
  assume "concat r = h @ rest \<and> length h = 4 \<and> 1 \<le> HDR_unpack h \<and> HDR_unpack h \<le> 65536
        \<and> length rest < HDR_unpack h"
  then show "fst (recv_frame r) = Inr None"
    using recv_frame_header [of r h rest] by (auto simp add: MAX_FRAME_def)
qed

theorem framing_roundtrip_witness:
  "send_frame [] [104, 105] = Inr [0, 0, 0, 2, 104, 105]
   \<and> fst (recv_frame [[0, 0], [0, 2, 104], [105]]) = Inr (Some [104, 105])
   \<and> send_frame [] [] = Inl (FramingError ''bad frame size'')
   \<and> fst (recv_frame [[0, 0, 0, 0, 7]]) = Inl (FramingError ''bad length'')
   \<and> fst (recv_frame [[0, 0, 0]]) = Inr None
   \<and> fst (recv_frame [[0, 0, 0, 2], [104]]) = Inr None"
proof -
  have enc: "send_frame [] [104, 105] = Inr [0, 0, 0, 2, 104, 105]"
    by (simp add: send_frame_def MAX_FRAME_def HDR_pack_def)
  from framing_roundtrip [of "[104, 105]" "[]" "[[0, 0, 0, 0, 7]]" "[0, 0, 0, 0]" "[7]"]
  have a: "\<exists>w. send_frame [] [104, 105] = Inr w \<and>
        (\<forall>r. concat r = w \<longrightarrow> fst (recv_frame r) = Inr (Some [104, 105]))"
    and c: "fst (recv_frame [[0, 0, 0, 0, 7]]) = Inl (FramingError ''bad length'')"
    by (simp_all add: HDR_unpack_def)
  from a enc have "\<forall>r. concat r = [0, 0, 0, 2, 104, 105] \<longrightarrow>
      fst (recv_frame r) = Inr (Some [104, 105])" by simp
  then have dec: "fst (recv_frame [[0, 0], [0, 2, 104], [105]]) = Inr (Some [104, 105])"
    by simp
  from framing_roundtrip [of "[]" "[]" "[[0, 0, 0]]" "[]" "[]"]
  have b: "send_frame [] [] = Inl (FramingError ''bad frame size'')"
    and d: "fst (recv_frame [[0, 0, 0]]) = Inr None"
    by simp_all
  from framing_roundtrip [of "[]" "[]" "[[0, 0, 0, 2], [104]]" "[0, 0, 0, 2]" "[104]"]
  have e: "fst (recv_frame [[0, 0, 0, 2], [104]]) = Inr None"
    by (simp add: HDR_unpack_def)
  from enc dec b c d e show ?thesis by simp
qed

section \<open>Verification: failures during an upload\<close>





lemma demo_started_tempfile:
  "fs_read (dev_fs demo_started) (TMP_ROOT @ [''u1.zip.part'']) = Some []"
  by code_simp



section \<open>Verification: the version of an upload\<close>







lemma demo_published_version:
  "GameVersion (dev_db demo_published) =
     [\<lparr>v_id = 1, v_gameFk = 1, v_version = ''1.0.0'', v_changelog = ''first'',
       v_uploadedAt = 200, v_fileName = ''g1.zip'', v_sizeBytes = 3, v_sha256 = ''156'',
       v_zipPath = [''hw3'', ''server'', ''uploaded_games'', ''g1'', ''1.0.0'', ''package.zip''],
       v_extractedPath = [''hw3'', ''server'', ''uploaded_games'', ''g1'', ''1.0.0'', ''extracted''],
       v_manifestJson = ''{}'', v_clientType = ''cli'', v_minPlayers = 2, v_maxPlayers = 3\<rparr>]"
  by code_simp



section \<open>Verification: archives with unsafe members\<close>

lemma map_of_filter_key:
  "map_of (filter (\<lambda>(q, _). P q) xs) k = (if P k then map_of xs k else None)"
  by (induction xs) auto

lemma fs_read_write_bytes:
  "fs_read (write_bytes p d fs) q = (if q = p then Some d else fs_read fs q)"
  by (simp add: fs_read_def write_bytes_def map_of_filter_key)

lemma fs_read_mkdir_parents: "fs_read (mkdir_parents p fs) q = fs_read fs q"
  by (simp add: fs_read_def mkdir_parents_def)

lemma fs_read_rmtree:
  "fs_read (rmtree p fs) q = (if has_prefix p q then None else fs_read fs q)"
  by (simp add: fs_read_def rmtree_def map_of_filter_key)

lemma fs_read_move:
  "move src dst fs = Inr fs' \<Longrightarrow>
     fs_read fs' q = (if q = dst then fs_read fs src else if q = src then None else fs_read fs q)"
  by (auto simp add: move_def fs_read_write_bytes split: option.splits)
     (auto simp add: fs_read_def map_of_filter_key)

lemma sibling_not_below: "a \<noteq> b \<Longrightarrow> \<not> has_prefix (d @ [a]) (d @ [b])"
  by (simp add: has_prefix_def)

lemma move_and_extract_unsafe:
  assumes "fs_read fs temp = Some data" and "read_zip L data = Inr members"
    and "find unsafe_member members \<noteq> None" and "\<not> has_prefix ex zp"
  shows "\<exists>fs'. move_and_extract L temp zp ex fs = (Inl ''extract_failed:unsafe_zip_entry'', fs')
           \<and> fs_read fs' zp = Some data
           \<and> (\<forall>p. fs_read fs' p \<noteq> None \<longrightarrow> p = zp \<or> fs_read fs p \<noteq> None)"
proof -
  from assms(1) obtain fs1 where mv: "move temp zp fs = Inr fs1"
    by (auto simp add: move_def)
  define fs2 where "fs2 = (if exists fs1 ex then rmtree ex fs1 else fs1)"
  have r1: "fs_read fs1 q = (if q = zp then Some data else if q = temp then None else fs_read fs q)"
    for q using fs_read_move [OF mv, of q] assms(1) by simp
  have r2: "fs_read (mkdir_parents ex fs2) zp = Some data"
    using assms(4) by (simp add: fs2_def fs_read_mkdir_parents fs_read_rmtree r1)
  have r3: "fs_read (mkdir_parents ex fs2) p \<noteq> None \<longrightarrow> p = zp \<or> fs_read fs p \<noteq> None" for p
    by (auto simp add: fs2_def fs_read_mkdir_parents fs_read_rmtree r1 split: if_splits)
  have "move_and_extract L temp zp ex fs =
      (Inl ''extract_failed:unsafe_zip_entry'', mkdir_parents ex fs2)"
    using mv r2 assms(2,3)
    by (simp add: move_and_extract_def safe_extract_zip_def Let_def fs2_def [symmetric])
  with r2 r3 show ?thesis by blast
qed

text \<open>
  Claim C3, as the code has it. When the uploaded bytes are complete and match the digest
  and the archive has a member whose path is absolute or contains \<open>..\<close>,
  \<open>game_upload_finish\<close> fails with the error code \<open>extract_failed:unsafe_zip_entry\<close>. The
  store is unchanged, so no GameVersion row is made, and no member of the archive is
  written: the only regular file that is new is \<open>package.zip\<close> of that game and version
  below the upload root, which holds the uploaded bytes.
\<close>

theorem unsafe_zip_rejected:
  assumes "SESSIONS s w = Some sess"
    and "UPLOADS s (strip (uf_uploadId fq)) = Some up"
    and "us_developer_id up = ds_developer_id sess"
    and "us_received up = us_expected_size up"
    and "lower (sha256_hex L (us_hasher up)) = us_expected_sha256 up"
    and "fs_read (dev_fs s) (us_temp_path up) = Some data"
    and "read_zip L data = Inr members"
    and "find unsafe_member members \<noteq> None"
  shows "fst (handle_upload_finish L now w fq s) = Inl ''extract_failed:unsafe_zip_entry''
    \<and> dev_db (snd (handle_upload_finish L now w fq s)) = dev_db s
    \<and> fs_read (dev_fs (snd (handle_upload_finish L now w fq s)))
         (UPLOAD_ROOT @ [us_game_id up, us_version up, ''package.zip'']) = Some data
    \<and> (\<forall>p. is_file (dev_fs (snd (handle_upload_finish L now w fq s))) p \<longrightarrow>
           p = UPLOAD_ROOT @ [us_game_id up, us_version up, ''package.zip'']
           \<or> is_file (dev_fs s) p)"
proof -
  let ?gd = "UPLOAD_ROOT @ [us_game_id up, us_version up]"
  have sib: "\<not> has_prefix (?gd @ [''extracted'']) (?gd @ [''package.zip''])"
    by (rule sibling_not_below) simp
  have rd: "fs_read (mkdir_parents ?gd (dev_fs s)) (us_temp_path up) = Some data"
    using assms(6) by (simp add: fs_read_mkdir_parents)
  from move_and_extract_unsafe [OF rd assms(7,8) sib]
  obtain fs' where
    mx: "move_and_extract L (us_temp_path up) (?gd @ [''package.zip'']) (?gd @ [''extracted''])
           (mkdir_parents ?gd (dev_fs s)) = (Inl ''extract_failed:unsafe_zip_entry'', fs')"
    and z: "fs_read fs' (?gd @ [''package.zip'']) = Some data"
    and n: "\<forall>p. fs_read fs' p \<noteq> None \<longrightarrow>
              p = ?gd @ [''package.zip''] \<or> fs_read (mkdir_parents ?gd (dev_fs s)) p \<noteq> None"
    by blast
  have fin: "handle_upload_finish L now w fq s =
      (Inl ''extract_failed:unsafe_zip_entry'', s\<lparr>dev_fs := fs'\<rparr>)"
    using assms(1-5) mx by (simp add: handle_upload_finish_def Let_def)
  show ?thesis
    using z n by (simp add: fin is_file_def fs_read_mkdir_parents)
qed

text \<open>
  Against C3 as stated: for the archive with the member \<open>../evil\<close> the error code is not
  \<open>unsafe_zip_entry\<close> itself, and \<open>package.zip\<close> has landed below the upload root.
\<close>

theorem unsafe_zip_counterexample:
  "fst (handle_upload_finish demo_lib 200 1 \<lparr>uf_uploadId = ''u3'', uf_changelog = ''''\<rparr>
          demo_evil_uploaded) = Inl ''extract_failed:unsafe_zip_entry''
   \<and> is_file (dev_fs (snd (handle_upload_finish demo_lib 200 1
          \<lparr>uf_uploadId = ''u3'', uf_changelog = ''''\<rparr> demo_evil_uploaded)))
        (UPLOAD_ROOT @ [''g1'', ''1.0.0'', ''package.zip''])"
  by code_simp

theorem unsafe_zip_rejected_witness:
  "fst (handle_upload_finish demo_lib 200 1 \<lparr>uf_uploadId = ''u3'', uf_changelog = ''''\<rparr>
          demo_evil_uploaded) = Inl ''extract_failed:unsafe_zip_entry''
   \<and> dev_db (snd (handle_upload_finish demo_lib 200 1 \<lparr>uf_uploadId = ''u3'', uf_changelog = ''''\<rparr>
          demo_evil_uploaded)) = dev_db demo_evil_uploaded
   \<and> \<not> is_file (dev_fs (snd (handle_upload_finish demo_lib 200 1
          \<lparr>uf_uploadId = ''u3'', uf_changelog = ''''\<rparr> demo_evil_uploaded)))
        (UPLOAD_ROOT @ [''g1'', ''1.0.0'', ''extracted'', ''manifest.json''])"
proof -
  let ?sess = "\<lparr>ds_developer_id = 1, ds_username = ''dev1''\<rparr>"
  let ?up = "\<lparr>us_upload_id = ''u3'', us_developer_id = 1, us_game_id = ''g1'',
       us_version = ''1.0.0'', us_file_name = ''g1.zip'', us_expected_size = 3,
       us_expected_sha256 = ''157'',
       us_temp_path = [''hw3'', ''server'', ''storage'', ''tmp_uploads'', ''u3.zip.part''],
       us_auto_created_game = True, us_received = 3, us_next_seq = 2,
       us_hasher = [80, 75, 2]\<rparr>"
  let ?fq = "\<lparr>uf_uploadId = ''u3'', uf_changelog = ''''\<rparr>"
  let ?members = "[\<lparr>zm_filename = ''manifest.json'', zm_data = [77]\<rparr>,
                 \<lparr>zm_filename = ''../evil'', zm_data = [69]\<rparr>]"
  have h1: "SESSIONS demo_evil_uploaded 1 = Some ?sess" by code_simp
  have h2: "UPLOADS demo_evil_uploaded (strip (uf_uploadId ?fq)) = Some ?up" by code_simp
  have h3: "us_developer_id ?up = ds_developer_id ?sess" by simp
  have h4: "us_received ?up = us_expected_size ?up" by simp
  have h5: "lower (sha256_hex demo_lib (us_hasher ?up)) = us_expected_sha256 ?up" by code_simp
  have h6: "fs_read (dev_fs demo_evil_uploaded) (us_temp_path ?up) = Some [80, 75, 2]"
    by code_simp
  have h7: "read_zip demo_lib [80, 75, 2] = Inr ?members" by code_simp
  have h8: "find unsafe_member ?members \<noteq> None" by code_simp
  have old: "\<not> is_file (dev_fs demo_evil_uploaded)
      (UPLOAD_ROOT @ [''g1'', ''1.0.0'', ''extracted'', ''manifest.json''])" by code_simp
  have ne: "UPLOAD_ROOT @ [''g1'', ''1.0.0'', ''extracted'', ''manifest.json'']
      \<noteq> UPLOAD_ROOT @ [us_game_id ?up, us_version ?up, ''package.zip'']" by simp
  from unsafe_zip_rejected [OF h1 h2 h3 h4 h5 h6 h7 h8, of 200] old ne
  show ?thesis by blast
qed

section \<open>Verification: integrity of an upload\<close>













section \<open>Verification: leaving, host succession and reviews\<close>

text \<open>
  Claim C10. For a logged-in player whose session is in no room, \<open>room_leave\<close> answers
  \<open>{ok: true, left: true}\<close> on the player's connection and changes nothing else: the
  session tables, the room cache, the store and the child processes stay as they are.
\<close>

theorem room_leave_without_room:
  assumes "SESSIONS_BY_WRITER s w = Some sess" and "ps_room_id sess = None"
  shows "handle_room_leave now w s = s\<lparr>sent := sent s @ [(w, Reply Ok_left)]\<rparr>"
  using assms by (simp add: handle_room_leave_def room_leave_internal_def send_def)

theorem room_leave_without_room_witness:
  "handle_room_leave 1000 1 lobby_three_online
     = lobby_three_online\<lparr>sent := sent lobby_three_online @ [(1, Reply Ok_left)]\<rparr>"
proof -
  have a: "SESSIONS_BY_WRITER lobby_three_online 1 =
      Some \<lparr>ps_player_id = 5, ps_username = ''alice'', ps_writer = 1, ps_room_id = None\<rparr>"
    by code_simp
  show ?thesis by (rule room_leave_without_room [OF a]) simp
qed

lemma strip_g1: "strip ''g1'' = ''g1''"
  by code_simp

lemmas lobby_eval =
  handle_player_login_def handle_room_create_def handle_room_join_def handle_room_leave_def
  room_leave_internal_def ensure_room_live_def set_room_id_def send_def notify_others_def
  push_event_to_player_def Game_get_by_gameId_def GameVersion_latest_for_gameId_def
  GameVersion_get_by_id_def Room_create_def Room_get_def Room_add_member_def
  Room_remove_member_def Room_set_host_def Room_set_status_def Room_delete_if_empty_def
  room_players_def insert_member_or_ignore_def touch_room_def strip_g1 Let_def

lemma three_online: "lobby_three_online =
  \<lparr>SESSIONS_BY_WRITER =
      [1 \<mapsto> \<lparr>ps_player_id = 5, ps_username = ''alice'', ps_writer = 1, ps_room_id = None\<rparr>,
       2 \<mapsto> \<lparr>ps_player_id = 9, ps_username = ''bob'', ps_writer = 2, ps_room_id = None\<rparr>,
       3 \<mapsto> \<lparr>ps_player_id = 3, ps_username = ''carol'', ps_writer = 3, ps_room_id = None\<rparr>],
    SESSIONS_BY_PLAYER_ID = [5 \<mapsto> 1, 9 \<mapsto> 2, 3 \<mapsto> 3],
    ROOMS = Map.empty, lobby_db = lobby_store, proc_returncode = (\<lambda>p. None),
    sent = [(1, Reply (Ok_login 5 ''alice'')), (2, Reply (Ok_login 9 ''bob'')),
            (3, Reply (Ok_login 3 ''carol''))]\<rparr>"
  by (simp add: lobby_three_online_def lobby_start_def lobby_eval)

lemma room_of_one: "handle_room_create 1000 1 ''g1'' lobby_three_online =
  \<lparr>SESSIONS_BY_WRITER =
      [1 \<mapsto> \<lparr>ps_player_id = 5, ps_username = ''alice'', ps_writer = 1, ps_room_id = Some 1\<rparr>,
       2 \<mapsto> \<lparr>ps_player_id = 9, ps_username = ''bob'', ps_writer = 2, ps_room_id = None\<rparr>,
       3 \<mapsto> \<lparr>ps_player_id = 3, ps_username = ''carol'', ps_writer = 3, ps_room_id = None\<rparr>],
    SESSIONS_BY_PLAYER_ID = [5 \<mapsto> 1, 9 \<mapsto> 2, 3 \<mapsto> 3],
    ROOMS = [1 \<mapsto> \<lparr>rl_room_id = 1, rl_host_player_id = 5, rl_players = [5],
       rl_game_id = ''g1'', rl_version = ''1.0.0'', rl_game_db_id = 1,
       rl_game_version_id = 1, rl_status = ''waiting'', rl_token = None,
       rl_game_port = None, rl_game_proc = None\<rparr>],
    lobby_db = (lobby_store)\<lparr>
       Room := [\<lparr>r_id = 1, r_hostPlayerId = 5, r_gameFk = 1, r_gameVersionFk = 1,
                 r_status = ''waiting'', r_createdAt = 1000, r_updatedAt = 1000\<rparr>],
       RoomMember := [\<lparr>m_roomId = 1, m_playerId = 5, m_joinedAt = 1000\<rparr>],
       seq_Room := 1\<rparr>,
    proc_returncode = (\<lambda>p. None),
    sent = [(1, Reply (Ok_login 5 ''alice'')), (2, Reply (Ok_login 9 ''bob'')),
            (3, Reply (Ok_login 3 ''carol'')), (1, Reply (Ok_room_created 1 ''g1'' ''1.0.0''))]\<rparr>"
  unfolding three_online lobby_store_def
  by (simp add: lobby_eval fun_upd_twist)

lemma room_of_two:
  "handle_room_join 1001 2 1 (handle_room_create 1000 1 ''g1'' lobby_three_online) =
  \<lparr>SESSIONS_BY_WRITER =
      [1 \<mapsto> \<lparr>ps_player_id = 5, ps_username = ''alice'', ps_writer = 1, ps_room_id = Some 1\<rparr>,
       2 \<mapsto> \<lparr>ps_player_id = 9, ps_username = ''bob'', ps_writer = 2, ps_room_id = Some 1\<rparr>,
       3 \<mapsto> \<lparr>ps_player_id = 3, ps_username = ''carol'', ps_writer = 3, ps_room_id = None\<rparr>],
    SESSIONS_BY_PLAYER_ID = [5 \<mapsto> 1, 9 \<mapsto> 2, 3 \<mapsto> 3],
    ROOMS = [1 \<mapsto> \<lparr>rl_room_id = 1, rl_host_player_id = 5, rl_players = [5, 9],
       rl_game_id = ''g1'', rl_version = ''1.0.0'', rl_game_db_id = 1,
       rl_game_version_id = 1, rl_status = ''waiting'', rl_token = None,
       rl_game_port = None, rl_game_proc = None\<rparr>],
    lobby_db = (lobby_store)\<lparr>
       Room := [\<lparr>r_id = 1, r_hostPlayerId = 5, r_gameFk = 1, r_gameVersionFk = 1,
                 r_status = ''waiting'', r_createdAt = 1000, r_updatedAt = 1001\<rparr>],
       RoomMember := [\<lparr>m_roomId = 1, m_playerId = 5, m_joinedAt = 1000\<rparr>,
                      \<lparr>m_roomId = 1, m_playerId = 9, m_joinedAt = 1001\<rparr>],
       seq_Room := 1\<rparr>,
    proc_returncode = (\<lambda>p. None),
    sent = [(1, Reply (Ok_login 5 ''alice'')), (2, Reply (Ok_login 9 ''bob'')),
            (3, Reply (Ok_login 3 ''carol'')), (1, Reply (Ok_room_created 1 ''g1'' ''1.0.0'')),
            (2, Reply (Ok_joined 1)), (1, Event (Player_joined 1 9))]\<rparr>"
  unfolding room_of_one lobby_store_def
  by (simp add: lobby_eval fun_upd_twist)

lemma room_of_three: "lobby_room_of_three =
  \<lparr>SESSIONS_BY_WRITER =
      [1 \<mapsto> \<lparr>ps_player_id = 5, ps_username = ''alice'', ps_writer = 1, ps_room_id = Some 1\<rparr>,
       2 \<mapsto> \<lparr>ps_player_id = 9, ps_username = ''bob'', ps_writer = 2, ps_room_id = Some 1\<rparr>,
       3 \<mapsto> \<lparr>ps_player_id = 3, ps_username = ''carol'', ps_writer = 3, ps_room_id = Some 1\<rparr>],
    SESSIONS_BY_PLAYER_ID = [5 \<mapsto> 1, 9 \<mapsto> 2, 3 \<mapsto> 3],
    ROOMS = [1 \<mapsto> \<lparr>rl_room_id = 1, rl_host_player_id = 5, rl_players = [3, 5, 9],
       rl_game_id = ''g1'', rl_version = ''1.0.0'', rl_game_db_id = 1,
       rl_game_version_id = 1, rl_status = ''waiting'', rl_token = None,
       rl_game_port = None, rl_game_proc = None\<rparr>],
    lobby_db = (lobby_store)\<lparr>
       Room := [\<lparr>r_id = 1, r_hostPlayerId = 5, r_gameFk = 1, r_gameVersionFk = 1,
                 r_status = ''waiting'', r_createdAt = 1000, r_updatedAt = 1002\<rparr>],
       RoomMember := [\<lparr>m_roomId = 1, m_playerId = 5, m_joinedAt = 1000\<rparr>,
                      \<lparr>m_roomId = 1, m_playerId = 9, m_joinedAt = 1001\<rparr>,
                      \<lparr>m_roomId = 1, m_playerId = 3, m_joinedAt = 1002\<rparr>],
       seq_Room := 1\<rparr>,
    proc_returncode = (\<lambda>p. None),
    sent = [(1, Reply (Ok_login 5 ''alice'')), (2, Reply (Ok_login 9 ''bob'')),
            (3, Reply (Ok_login 3 ''carol'')), (1, Reply (Ok_room_created 1 ''g1'' ''1.0.0'')),
            (2, Reply (Ok_joined 1)), (1, Event (Player_joined 1 9)),
            (3, Reply (Ok_joined 1)), (1, Event (Player_joined 1 3)),
            (2, Event (Player_joined 1 3))]\<rparr>"
  unfolding lobby_room_of_three_def room_of_two lobby_store_def
  by (simp add: lobby_eval fun_upd_twist)

lemma host_left: "handle_room_leave 1003 1 lobby_room_of_three =
  \<lparr>SESSIONS_BY_WRITER =
      [1 \<mapsto> \<lparr>ps_player_id = 5, ps_username = ''alice'', ps_writer = 1, ps_room_id = None\<rparr>,
       2 \<mapsto> \<lparr>ps_player_id = 9, ps_username = ''bob'', ps_writer = 2, ps_room_id = Some 1\<rparr>,
       3 \<mapsto> \<lparr>ps_player_id = 3, ps_username = ''carol'', ps_writer = 3, ps_room_id = Some 1\<rparr>],
    SESSIONS_BY_PLAYER_ID = [5 \<mapsto> 1, 9 \<mapsto> 2, 3 \<mapsto> 3],
    ROOMS = [1 \<mapsto> \<lparr>rl_room_id = 1, rl_host_player_id = 3, rl_players = [3, 9],
       rl_game_id = ''g1'', rl_version = ''1.0.0'', rl_game_db_id = 1,
       rl_game_version_id = 1, rl_status = ''waiting'', rl_token = None,
       rl_game_port = None, rl_game_proc = None\<rparr>],
    lobby_db = (lobby_store)\<lparr>
       Room := [\<lparr>r_id = 1, r_hostPlayerId = 3, r_gameFk = 1, r_gameVersionFk = 1,
                 r_status = ''waiting'', r_createdAt = 1000, r_updatedAt = 1003\<rparr>],
       RoomMember := [\<lparr>m_roomId = 1, m_playerId = 9, m_joinedAt = 1001\<rparr>,
                      \<lparr>m_roomId = 1, m_playerId = 3, m_joinedAt = 1002\<rparr>],
       seq_Room := 1\<rparr>,
    proc_returncode = (\<lambda>p. None),
    sent = [(1, Reply (Ok_login 5 ''alice'')), (2, Reply (Ok_login 9 ''bob'')),
            (3, Reply (Ok_login 3 ''carol'')), (1, Reply (Ok_room_created 1 ''g1'' ''1.0.0'')),
            (2, Reply (Ok_joined 1)), (1, Event (Player_joined 1 9)),
            (3, Reply (Ok_joined 1)), (1, Event (Player_joined 1 3)),
            (2, Event (Player_joined 1 3)),
            (3, Event (Host_changed 1 3)), (2, Event (Host_changed 1 3)),
            (3, Event (Player_left 1 5)), (2, Event (Player_left 1 5)),
            (1, Reply Ok_left)]\<rparr>"
  unfolding room_of_three lobby_store_def
  by (simp add: lobby_eval fun_upd_twist)

text \<open>
  Claim C6 on a run of the code. Player 5 opens room 1, player 9 joins and then player 3;
  the store lists the members in the order they joined. When host 5 leaves, the lobby
  makes player 3 the host and tells players 3 and 9 so: the join has sorted the cached
  member list by player id, and the first of that list is taken. The earliest-joined
  member that remains is player 9.
\<close>

theorem host_succession_run:
  "room_players 1 (lobby_db lobby_room_of_three) = [5, 9, 3]
   \<and> map_option rl_players (ROOMS lobby_room_of_three 1) = Some [3, 5, 9]
   \<and> room_players 1 (lobby_db (handle_room_leave 1003 1 lobby_room_of_three)) = [9, 3]
   \<and> map_option rl_host_player_id (ROOMS (handle_room_leave 1003 1 lobby_room_of_three) 1)
       = Some 3
   \<and> map r_hostPlayerId (Room (lobby_db (handle_room_leave 1003 1 lobby_room_of_three))) = [3]
   \<and> drop 9 (sent (handle_room_leave 1003 1 lobby_room_of_three))
       = [(3, Event (Host_changed 1 3)), (2, Event (Host_changed 1 3)),
          (3, Event (Player_left 1 5)), (2, Event (Player_left 1 5)), (1, Reply Ok_left)]"
  unfolding host_left unfolding room_of_three
  by (simp add: room_players_def)

lemma strip_waiting: "strip ''waiting'' = ''waiting''"
  by code_simp

lemma strip_playing: "strip ''playing'' = ''playing''"
  by code_simp

lemmas match_eval = strip_waiting strip_playing
  handle_room_start_def settle_before_start_def spawn_game_def finish_match_def
  persist_match_log_def match_log_request_def int_or_now_def stop_game_process_def
  MatchLog_create_def handle_post_result_def made_up_result_def

lemma two_online:
  "handle_player_login 2 (Inr (13, ''bob'')) (handle_player_login 1 (Inr (12, ''alice'')) lobby_start) =
  \<lparr>SESSIONS_BY_WRITER =
      [1 \<mapsto> \<lparr>ps_player_id = 12, ps_username = ''alice'', ps_writer = 1, ps_room_id = None\<rparr>,
       2 \<mapsto> \<lparr>ps_player_id = 13, ps_username = ''bob'', ps_writer = 2, ps_room_id = None\<rparr>],
    SESSIONS_BY_PLAYER_ID = [12 \<mapsto> 1, 13 \<mapsto> 2],
    ROOMS = Map.empty, lobby_db = lobby_store, proc_returncode = (\<lambda>p. None),
    sent = [(1, Reply (Ok_login 12 ''alice'')), (2, Reply (Ok_login 13 ''bob''))]\<rparr>"
  by (simp add: lobby_start_def lobby_eval)

lemma match_room_of_two:
  "handle_room_join 2001 2 1 (handle_room_create 2000 1 ''g1''
     (handle_player_login 2 (Inr (13, ''bob''))
        (handle_player_login 1 (Inr (12, ''alice'')) lobby_start))) =
  \<lparr>SESSIONS_BY_WRITER =
      [1 \<mapsto> \<lparr>ps_player_id = 12, ps_username = ''alice'', ps_writer = 1, ps_room_id = Some 1\<rparr>,
       2 \<mapsto> \<lparr>ps_player_id = 13, ps_username = ''bob'', ps_writer = 2, ps_room_id = Some 1\<rparr>],
    SESSIONS_BY_PLAYER_ID = [12 \<mapsto> 1, 13 \<mapsto> 2],
    ROOMS = [1 \<mapsto> \<lparr>rl_room_id = 1, rl_host_player_id = 12, rl_players = [12, 13],
       rl_game_id = ''g1'', rl_version = ''1.0.0'', rl_game_db_id = 1,
       rl_game_version_id = 1, rl_status = ''waiting'', rl_token = None,
       rl_game_port = None, rl_game_proc = None\<rparr>],
    lobby_db = lobby_store\<lparr>
       Room := [\<lparr>r_id = 1, r_hostPlayerId = 12, r_gameFk = 1, r_gameVersionFk = 1,
                 r_status = ''waiting'', r_createdAt = 2000, r_updatedAt = 2001\<rparr>],
       RoomMember := [\<lparr>m_roomId = 1, m_playerId = 12, m_joinedAt = 2000\<rparr>,
                      \<lparr>m_roomId = 1, m_playerId = 13, m_joinedAt = 2001\<rparr>],
       seq_Room := 1\<rparr>,
    proc_returncode = (\<lambda>p. None),
    sent = [(1, Reply (Ok_login 12 ''alice'')), (2, Reply (Ok_login 13 ''bob'')),
            (1, Reply (Ok_room_created 1 ''g1'' ''1.0.0'')),
            (2, Reply (Ok_joined 1)), (1, Event (Player_joined 1 13))]\<rparr>"
  unfolding two_online lobby_store_def
  by (simp add: lobby_eval fun_upd_twist)

lemma match_started: "lobby_match_started =
  \<lparr>SESSIONS_BY_WRITER =
      [1 \<mapsto> \<lparr>ps_player_id = 12, ps_username = ''alice'', ps_writer = 1, ps_room_id = Some 1\<rparr>,
       2 \<mapsto> \<lparr>ps_player_id = 13, ps_username = ''bob'', ps_writer = 2, ps_room_id = Some 1\<rparr>],
    SESSIONS_BY_PLAYER_ID = [12 \<mapsto> 1, 13 \<mapsto> 2],
    ROOMS = [1 \<mapsto> \<lparr>rl_room_id = 1, rl_host_player_id = 12, rl_players = [12, 13],
       rl_game_id = ''g1'', rl_version = ''1.0.0'', rl_game_db_id = 1,
       rl_game_version_id = 1, rl_status = ''playing'', rl_token = Some ''t0k3n'',
       rl_game_port = Some 10000, rl_game_proc = Some 7\<rparr>],
    lobby_db = lobby_store\<lparr>
       Room := [\<lparr>r_id = 1, r_hostPlayerId = 12, r_gameFk = 1, r_gameVersionFk = 1,
                 r_status = ''playing'', r_createdAt = 2000, r_updatedAt = 2002\<rparr>],
       RoomMember := [\<lparr>m_roomId = 1, m_playerId = 12, m_joinedAt = 2000\<rparr>,
                      \<lparr>m_roomId = 1, m_playerId = 13, m_joinedAt = 2001\<rparr>],
       seq_Room := 1\<rparr>,
    proc_returncode = (\<lambda>p. None),
    sent = [(1, Reply (Ok_login 12 ''alice'')), (2, Reply (Ok_login 13 ''bob'')),
            (1, Reply (Ok_room_created 1 ''g1'' ''1.0.0'')),
            (2, Reply (Ok_joined 1)), (1, Event (Player_joined 1 13)),
            (1, Event (Game_info 1 ''g1'' ''1.0.0'' GAME_HOST_PUB 10000 ''t0k3n'')),
            (2, Event (Game_info 1 ''g1'' ''1.0.0'' GAME_HOST_PUB 10000 ''t0k3n'')),
            (1, Reply (Ok_started 10000))]\<rparr>"
  unfolding lobby_match_started_def match_room_of_two lobby_store_def
  by (simp add: lobby_eval match_eval demo_env_def fun_upd_twist)


lemma match_played: "lobby_match_played =
  \<lparr>SESSIONS_BY_WRITER =
      [1 \<mapsto> \<lparr>ps_player_id = 12, ps_username = ''alice'', ps_writer = 1, ps_room_id = Some 1\<rparr>,
       2 \<mapsto> \<lparr>ps_player_id = 13, ps_username = ''bob'', ps_writer = 2, ps_room_id = Some 1\<rparr>,
       3 \<mapsto> \<lparr>ps_player_id = 1, ps_username = ''dave'', ps_writer = 3, ps_room_id = None\<rparr>],
    SESSIONS_BY_PLAYER_ID = [12 \<mapsto> 1, 13 \<mapsto> 2, 1 \<mapsto> 3],
    ROOMS = [1 \<mapsto> \<lparr>rl_room_id = 1, rl_host_player_id = 12, rl_players = [12, 13],
       rl_game_id = ''g1'', rl_version = ''1.0.0'', rl_game_db_id = 1,
       rl_game_version_id = 1, rl_status = ''waiting'', rl_token = None,
       rl_game_port = None, rl_game_proc = None\<rparr>],
    lobby_db = lobby_store\<lparr>
       Room := [\<lparr>r_id = 1, r_hostPlayerId = 12, r_gameFk = 1, r_gameVersionFk = 1,
                 r_status = ''waiting'', r_createdAt = 2000, r_updatedAt = 2050\<rparr>],
       RoomMember := [\<lparr>m_roomId = 1, m_playerId = 12, m_joinedAt = 2000\<rparr>,
                      \<lparr>m_roomId = 1, m_playerId = 13, m_joinedAt = 2001\<rparr>],
       MatchLog := [\<lparr>ml_id = 1, ml_roomId = 1, ml_gameFk = 1, ml_gameVersionFk = 1,
                     ml_startedAt = 2002, ml_endedAt = 2050, ml_reason = ''finished'',
                     ml_winnerPlayerId = Some 12,
                     ml_resultsJson = results_json [12, 13] []\<rparr>],
       seq_Room := 1, seq_MatchLog := 1\<rparr>,
    proc_returncode = (\<lambda>p. None)(7 := Some (- 15)),
    sent = [(1, Reply (Ok_login 12 ''alice'')), (2, Reply (Ok_login 13 ''bob'')),
            (1, Reply (Ok_room_created 1 ''g1'' ''1.0.0'')),
            (2, Reply (Ok_joined 1)), (1, Event (Player_joined 1 13)),
            (1, Event (Game_info 1 ''g1'' ''1.0.0'' GAME_HOST_PUB 10000 ''t0k3n'')),
            (2, Event (Game_info 1 ''g1'' ''1.0.0'' GAME_HOST_PUB 10000 ''t0k3n'')),
            (1, Reply (Ok_started 10000)),
            (1, Event (Game_ready 1 (Some demo_result))),
            (2, Event (Game_ready 1 (Some demo_result))),
            (9, Reply Ok_posted), (3, Reply (Ok_login 1 ''dave''))]\<rparr>"
proof -
  have fields: "rd_roomId demo_result = Num 1" "rd_startedAt demo_result = Num 2002"
    "rd_endedAt demo_result = Num 2050" "rd_reason demo_result = ''finished''"
    "rd_winner demo_result = Num 12" "rd_results demo_result = []"
    by (simp_all add: demo_result_def)
  show ?thesis
    unfolding lobby_match_played_def match_started lobby_store_def
    by (simp add: lobby_eval match_eval fields fun_upd_twist)
qed

lemma marker_found: "like_contains (userId_marker 1) (results_json [12, 13] [])"
  by code_simp

lemma review_accepted: "handle_review_upsert 3000 3 ''g1'' 5 ''ok'' lobby_match_played =
  lobby_match_played\<lparr>
    lobby_db := (lobby_db lobby_match_played)\<lparr>
       Review := [\<lparr>rv_id = 1, rv_gameFk = 1, rv_playerId = 1, rv_rating = 5,
                   rv_comment = ''ok'', rv_createdAt = 3000, rv_updatedAt = 3000\<rparr>],
       seq_Review := 1\<rparr>,
    sent := sent lobby_match_played @ [(3, Reply Ok_review)]\<rparr>"
proof -
  have ok: "strip ''ok'' = ''ok''" by code_simp
  show ?thesis
    unfolding match_played lobby_store_def
    by (simp add: handle_review_upsert_def MatchLog_has_player_played_def Review_upsert_def
        marker_found ok strip_g1 send_def Let_def)
qed

text \<open>
  Claim C8 on a run of the code. Players 12 and 13 have played a match of \<open>g1\<close>; player 1
  has played none. The review of player 1 is accepted: the probe of the store looks for
  the text \<open>"userId": 1\<close> in the results of a match, and finds it at the start of
  \<open>"userId": 12\<close>.
\<close>

theorem review_by_non_participant_run:
  "map ml_resultsJson (MatchLog (lobby_db lobby_match_played)) = [results_json [12, 13] []]
   \<and> map_option ps_player_id (SESSIONS_BY_WRITER lobby_match_played 3) = Some 1
   \<and> MatchLog_has_player_played ''g1'' 1 (lobby_db lobby_match_played) = Inr True
   \<and> last (sent (handle_review_upsert 3000 3 ''g1'' 5 ''ok'' lobby_match_played))
       = (3, Reply Ok_review)
   \<and> map rv_playerId (Review (lobby_db (handle_review_upsert 3000 3 ''g1'' 5 ''ok''
                                           lobby_match_played))) = [1]"
  unfolding review_accepted unfolding match_played lobby_store_def
  by (simp add: MatchLog_has_player_played_def marker_found strip_g1)

end
